theory Spec2Isabelle
  imports Complex_Main "HOL-Library.Log_Nat"
begin

section \<open>JavaScript values as the server sees them\<close>

text \<open>
  The server (\<^verbatim>\<open>src/server.js\<close>) receives JSON and coerces it with the
  built-ins \<^verbatim>\<open>String\<close>, \<^verbatim>\<open>Number\<close>, \<^verbatim>\<open>trim\<close>,
  \<^verbatim>\<open>toLowerCase\<close>, \<^verbatim>\<open>Number.isInteger\<close>, \<^verbatim>\<open>Math.min\<close>,
  \<^verbatim>\<open>Math.max\<close> and \<^verbatim>\<open>slice\<close>, and adds numbers with \<^verbatim>\<open>+=\<close>. The
  coercions decide which requests are accepted, so they are part of the model.

  A number is NaN, an infinity or a finite value, kept as the rational it denotes;
  every operation that produces a number rounds it to binary64 (\<open>round64\<close>). Negative
  zero is zero: the server never divides, compares it as equal to zero and prints it as
  \<^verbatim>\<open>0\<close>. A string is the list of the bytes of its UTF-8 encoding. An object is the
  result of \<^verbatim>\<open>JSON.parse\<close>: its keys are distinct and none of its values is a
  function. An absent key reads as \<open>JUndefined\<close>.
\<close>

datatype jsnum = NaN | PInf | NInf | Fin rat

datatype jsval =
    JUndefined
  | JNull
  | JBool bool
  | JNum jsnum
  | JStr string
  | JArr "jsval list"
  | JObj "(string \<times> jsval) list"

subsection \<open>Rounding to binary64\<close>

text \<open>Powers with an integer exponent, by squaring.\<close>

function ipow :: "rat \<Rightarrow> int \<Rightarrow> rat" where
  "ipow b e =
     (if e \<le> 0 then 1
      else (let h = ipow b (e div 2) in if even e then h * h else b * h * h))"
  by pat_completeness auto
termination
  by (relation "measure (\<lambda>(b, e). nat e)") auto

declare ipow.simps [simp del]

definition pow2 :: "int \<Rightarrow> rat" where
  "pow2 e = (if 0 \<le> e then ipow 2 e else 1 / ipow 2 (- e))"

definition pow10 :: "int \<Rightarrow> rat" where
  "pow10 e = (if 0 \<le> e then ipow 10 e else 1 / ipow 10 (- e))"

text \<open>The integer nearest to a rational, a tie going to the even one.\<close>

definition round_half_even :: "rat \<Rightarrow> int" where
  "round_half_even m =
     (let f = \<lfloor>m\<rfloor>; r = m - of_int f
      in if r < 1 / 2 then f else if 1 / 2 < r then f + 1 else if even f then f else f + 1)"

text \<open>For \<open>x > 0\<close>, the \<open>e\<close> with \<open>2\<^sup>e \<le> x < 2\<^sup>e\<^sup>+\<^sup>1\<close>: the bit lengths of numerator
  and denominator give it up to one.\<close>

definition floor_log2 :: "rat \<Rightarrow> int" where
  "floor_log2 x =
     (let (n, d) = quotient_of x; k = bitlen n - bitlen d
      in if pow2 k \<le> x then k else k - 1)"

text \<open>
  Round to nearest, ties to even, with 53 bits of precision, the exponents of binary64
  (subnormal numbers below \<open>2\<^sup>-\<^sup>1\<^sup>0\<^sup>2\<^sup>2\<close>) and overflow to infinity from \<open>2\<^sup>1\<^sup>0\<^sup>2\<^sup>4\<close>.
  \<open>round64_pos\<close> is for \<open>x > 0\<close>; \<open>None\<close> is the overflow.
\<close>

text \<open>\<open>2\<^sup>1\<^sup>0\<^sup>2\<^sup>4\<close>, written out.\<close>

definition overflow_threshold :: rat where
  "overflow_threshold =
     179769313486231590772930519078902473361797697894230657273430081157732675805500963132708477322407536021120113879871393357658789768814416622492847430639474124377767893424865485276302219601246094119453082952085005768838150682342462881473913110540827237163350510684586298239947245938479716304835356329624224137216"

definition round64_pos :: "rat \<Rightarrow> rat option" where
  "round64_pos x =
     (let e = max (floor_log2 x) (- 1022);
          ulp = pow2 (e - 52);
          y = of_int (round_half_even (x / ulp)) * ulp
      in if overflow_threshold \<le> y then None else Some y)"

definition round64 :: "rat \<Rightarrow> jsnum" where
  "round64 x =
     (if x = 0 then Fin 0
      else if 0 < x then (case round64_pos x of None \<Rightarrow> PInf | Some y \<Rightarrow> Fin y)
      else (case round64_pos (- x) of None \<Rightarrow> NInf | Some y \<Rightarrow> Fin (- y)))"

subsection \<open>Numbers\<close>

fun js_lt :: "jsnum \<Rightarrow> jsnum \<Rightarrow> bool" where
  "js_lt NaN _ = False"
| "js_lt _ NaN = False"
| "js_lt (Fin a) (Fin b) = (a < b)"
| "js_lt (Fin _) PInf = True"
| "js_lt NInf (Fin _) = True"
| "js_lt NInf PInf = True"
| "js_lt _ _ = False"

fun js_le :: "jsnum \<Rightarrow> jsnum \<Rightarrow> bool" where
  "js_le NaN _ = False"
| "js_le _ NaN = False"
| "js_le a b = (a = b \<or> js_lt a b)"

fun js_add :: "jsnum \<Rightarrow> jsnum \<Rightarrow> jsnum" where
  "js_add NaN _ = NaN"
| "js_add _ NaN = NaN"
| "js_add (Fin a) (Fin b) = round64 (a + b)"
| "js_add PInf NInf = NaN"
| "js_add NInf PInf = NaN"
| "js_add PInf _ = PInf"
| "js_add NInf _ = NInf"
| "js_add _ PInf = PInf"
| "js_add _ NInf = NInf"

fun js_neg :: "jsnum \<Rightarrow> jsnum" where
  "js_neg NaN = NaN"
| "js_neg PInf = NInf"
| "js_neg NInf = PInf"
| "js_neg (Fin a) = Fin (- a)"

text \<open>\<^verbatim>\<open>Math.min\<close> and \<^verbatim>\<open>Math.max\<close> of two arguments: NaN when either is NaN.\<close>

fun math_min :: "jsnum \<Rightarrow> jsnum \<Rightarrow> jsnum" where
  "math_min NaN _ = NaN"
| "math_min _ NaN = NaN"
| "math_min a b = (if js_lt b a then b else a)"

fun math_max :: "jsnum \<Rightarrow> jsnum \<Rightarrow> jsnum" where
  "math_max NaN _ = NaN"
| "math_max _ NaN = NaN"
| "math_max a b = (if js_lt a b then b else a)"

definition rat_is_int :: "rat \<Rightarrow> bool" where
  "rat_is_int q = (snd (quotient_of q) = 1)"

fun number_isInteger :: "jsnum \<Rightarrow> bool" where
  "number_isInteger (Fin q) = rat_is_int q"
| "number_isInteger _ = False"

subsection \<open>Strings\<close>

text \<open>
  The white space of \<^verbatim>\<open>trim\<close> and of numeric literals: the code points
  \<^verbatim>\<open>WhiteSpace\<close> and \<^verbatim>\<open>LineTerminator\<close> of the language (tab, line feed, vertical
  tab, form feed, carriage return, space, U+00A0, U+1680, U+2000 to U+200A, U+2028,
  U+2029, U+202F, U+205F, U+3000, U+FEFF), each as its UTF-8 bytes.
\<close>

definition white_space :: "string list" where
  "white_space =
     [[CHR 0x09], [CHR 0x0A], [CHR 0x0B], [CHR 0x0C], [CHR 0x0D], [CHR 0x20],
      [CHR 0xC2, CHR 0xA0],
      [CHR 0xE1, CHR 0x9A, CHR 0x80],
      [CHR 0xE2, CHR 0x80, CHR 0x80], [CHR 0xE2, CHR 0x80, CHR 0x81],
      [CHR 0xE2, CHR 0x80, CHR 0x82], [CHR 0xE2, CHR 0x80, CHR 0x83],
      [CHR 0xE2, CHR 0x80, CHR 0x84], [CHR 0xE2, CHR 0x80, CHR 0x85],
      [CHR 0xE2, CHR 0x80, CHR 0x86], [CHR 0xE2, CHR 0x80, CHR 0x87],
      [CHR 0xE2, CHR 0x80, CHR 0x88], [CHR 0xE2, CHR 0x80, CHR 0x89],
      [CHR 0xE2, CHR 0x80, CHR 0x8A],
      [CHR 0xE2, CHR 0x80, CHR 0xA8], [CHR 0xE2, CHR 0x80, CHR 0xA9],
      [CHR 0xE2, CHR 0x80, CHR 0xAF],
      [CHR 0xE2, CHR 0x81, CHR 0x9F],
      [CHR 0xE3, CHR 0x80, CHR 0x80],
      [CHR 0xEF, CHR 0xBB, CHR 0xBF]]"

text \<open>The number of bytes of the code of \<open>codes\<close> that \<open>s\<close> starts with, 0 if none.\<close>

definition code_len :: "string list \<Rightarrow> string \<Rightarrow> nat" where
  "code_len codes s =
     (case find (\<lambda>w. take (length w) s = w) codes of None \<Rightarrow> 0 | Some w \<Rightarrow> length w)"

text \<open>Dropping leading codes; the fuel is the length of the string, one byte at least
  going with each step.\<close>

fun strip_codes :: "string list \<Rightarrow> nat \<Rightarrow> string \<Rightarrow> string" where
  "strip_codes codes 0 s = s"
| "strip_codes codes (Suc fuel) s =
     (let k = code_len codes s in if k = 0 then s else strip_codes codes fuel (drop k s))"

definition trimStart :: "string \<Rightarrow> string" where
  "trimStart s = strip_codes white_space (length s) s"

definition trimEnd :: "string \<Rightarrow> string" where
  "trimEnd s = rev (strip_codes (map rev white_space) (length s) (rev s))"

definition trim :: "string \<Rightarrow> string" where
  "trim s = trimEnd (trimStart s)"

text \<open>
  \<^verbatim>\<open>toLowerCase\<close>. The letters A to Z go to a to z; the two other code points whose
  lower case has an ASCII letter are the Kelvin sign U+212A, which goes to k, and U+0130,
  which goes to i followed by U+0307. The lower case of every other letter outside ASCII is
  again outside ASCII and is not modelled (the bytes stay as they are): the server only
  compares the result with \<^verbatim>\<open>email\<close> and \<^verbatim>\<open>sms\<close>.
\<close>

fun toLowerCase :: "string \<Rightarrow> string" where
  "toLowerCase [] = []"
| "toLowerCase (c # s) =
     (let n = (of_char c :: nat) in
      if 65 \<le> n \<and> n \<le> 90 then char_of (n + 32) # toLowerCase s
      else if take 3 (c # s) = [CHR 0xE2, CHR 0x84, CHR 0xAA] then CHR ''k'' # toLowerCase (drop 2 s)
      else if take 2 (c # s) = [CHR 0xC4, CHR 0xB0]
      then CHR ''i'' # CHR 0xCC # CHR 0x87 # toLowerCase (drop 1 s)
      else c # toLowerCase s)"

definition is_digit :: "char \<Rightarrow> bool" where
  "is_digit c = (let n = (of_char c :: nat) in 48 \<le> n \<and> n \<le> 57)"

definition digit_val :: "char \<Rightarrow> int" where
  "digit_val c = int (of_char c :: nat) - 48"

definition digit_char :: "int \<Rightarrow> char" where
  "digit_char d = char_of (48 + d)"

text \<open>The decimal digits of an integer that is not negative.\<close>

function int_to_string :: "int \<Rightarrow> string" where
  "int_to_string n =
     (if n < 10 then [digit_char n]
      else int_to_string (n div 10) @ [digit_char (n mod 10)])"
  by pat_completeness auto
termination
  by (relation "measure nat") auto

declare int_to_string.simps [simp del]

subsection \<open>\<^verbatim>\<open>Number.prototype.toString\<close>\<close>

text \<open>
  For a finite \<open>x > 0\<close> the language takes the integers \<open>n\<close>, \<open>k\<close> and \<open>s\<close> with
  \<open>10\<^sup>k\<^sup>-\<^sup>1 \<le> s < 10\<^sup>k\<close> such that \<open>s \<times> 10\<^sup>n\<^sup>-\<^sup>k\<close> is \<open>x\<close> as a binary64 number, \<open>k\<close>
  as small as possible and then \<open>s \<times> 10\<^sup>n\<^sup>-\<^sup>k\<close> as close to \<open>x\<close> as possible (an even
  \<open>s\<close> on a tie), and prints the digits of \<open>s\<close> with the point or the exponent that
  \<open>n\<close> asks for.
\<close>

text \<open>The \<open>n\<close> with \<open>10\<^sup>n\<^sup>-\<^sup>1 \<le> x < 10\<^sup>n\<close>, searched upwards and then downwards from 0;
  binary64 needs less than 400 steps.\<close>

fun exp10_up :: "nat \<Rightarrow> rat \<Rightarrow> int \<Rightarrow> int" where
  "exp10_up 0 x n = n"
| "exp10_up (Suc fuel) x n = (if pow10 n \<le> x then exp10_up fuel x (n + 1) else n)"

fun exp10_down :: "nat \<Rightarrow> rat \<Rightarrow> int \<Rightarrow> int" where
  "exp10_down 0 x n = n"
| "exp10_down (Suc fuel) x n = (if x < pow10 (n - 1) then exp10_down fuel x (n - 1) else n)"

definition exp10 :: "rat \<Rightarrow> int" where
  "exp10 x = exp10_down 400 x (exp10_up 400 x 0)"

text \<open>The candidates with \<open>k\<close> digits are the two integers around \<open>x / 10\<^sup>p\<close>, where
  \<open>p = n - k\<close>; a candidate is good when it reads back as \<open>x\<close>.\<close>

definition reads_back :: "rat \<Rightarrow> int \<Rightarrow> int \<Rightarrow> bool" where
  "reads_back x s p = (round64 (of_int s * pow10 p) = Fin x)"

definition candidate :: "rat \<Rightarrow> int \<Rightarrow> int option" where
  "candidate x p =
     (let m = x / pow10 p; lo = \<lfloor>m\<rfloor>; hi = lo + 1;
          dlo = m - of_int lo; dhi = of_int hi - m
      in if reads_back x lo p \<and> reads_back x hi p
         then Some (if dlo < dhi then lo else if dhi < dlo then hi
                    else if even lo then lo else hi)
         else if reads_back x lo p then Some lo
         else if reads_back x hi p then Some hi
         else None)"

text \<open>The shortest digits: \<open>k\<close> from 1; 17 digits always read back.\<close>

fun shortest :: "nat \<Rightarrow> rat \<Rightarrow> int \<Rightarrow> int \<Rightarrow> int \<times> int" where
  "shortest 0 x n k = (\<lfloor>x / pow10 (n - k)\<rfloor>, n - k)"
| "shortest (Suc fuel) x n k =
     (case candidate x (n - k) of
        Some s \<Rightarrow> (s, n - k)
      | None \<Rightarrow> shortest fuel x n (k + 1))"

text \<open>The upper candidate may be \<open>10\<^sup>k\<close>: its digits are those of 1, one place higher.\<close>

definition normal_digits :: "int \<times> int \<Rightarrow> int \<times> int" where
  "normal_digits sp = (case sp of (s, p) \<Rightarrow> if s mod 10 = 0 \<and> s \<noteq> 0 then (s div 10, p + 1) else (s, p))"

definition positive_to_string :: "rat \<Rightarrow> string" where
  "positive_to_string x =
     (let (s, p) = normal_digits (shortest 17 x (exp10 x) 1);
          ds = int_to_string s;
          k = int (length ds);
          n = p + k
      in if k \<le> n \<and> n \<le> 21 then ds @ replicate (nat (n - k)) (CHR ''0'')
         else if 0 < n \<and> n \<le> 21 then take (nat n) ds @ CHR ''.'' # drop (nat n) ds
         else if - 6 < n \<and> n \<le> 0 then ''0.'' @ replicate (nat (- n)) (CHR ''0'') @ ds
         else (let e = n - 1;
                   ex = (if e < 0 then CHR ''-'' else CHR ''+'') # int_to_string \<bar>e\<bar>
               in if k = 1 then ds @ CHR ''e'' # ex
                  else take 1 ds @ CHR ''.'' # drop 1 ds @ CHR ''e'' # ex))"

fun num_to_string :: "jsnum \<Rightarrow> string" where
  "num_to_string NaN = ''NaN''"
| "num_to_string PInf = ''Infinity''"
| "num_to_string NInf = ''-Infinity''"
| "num_to_string (Fin q) =
     (if q = 0 then ''0''
      else if q < 0 then CHR ''-'' # positive_to_string (- q)
      else positive_to_string q)"

subsection \<open>Conversions that may throw\<close>

text \<open>
  A conversion returns \<open>Inr\<close> its result, or \<open>Inl\<close> the message of the TypeError it
  throws. \<^verbatim>\<open>String\<close> and \<^verbatim>\<open>Number\<close> throw on an object that has a key
  \<^verbatim>\<open>toString\<close> of its own: the value of the key is not a function, and neither
  \<^verbatim>\<open>valueOf\<close> (its own, not a function, or the inherited one, which returns the
  object) gives a primitive. Every other object prints as \<^verbatim>\<open>[object Object]\<close>.
\<close>

definition and_then :: "string + 'a \<Rightarrow> ('a \<Rightarrow> string + 'b) \<Rightarrow> string + 'b" where
  "and_then m f = (case m of Inl thrown \<Rightarrow> Inl thrown | Inr v \<Rightarrow> f v)"

fun collect :: "(string + 'a) list \<Rightarrow> string + 'a list" where
  "collect [] = Inr []"
| "collect (m # ms) =
     (case m of
        Inl thrown \<Rightarrow> Inl thrown
      | Inr v \<Rightarrow> (case collect ms of Inl thrown \<Rightarrow> Inl thrown | Inr vs \<Rightarrow> Inr (v # vs)))"

fun join_comma :: "string list \<Rightarrow> string" where
  "join_comma [] = []"
| "join_comma [s] = s"
| "join_comma (s # t) = s @ CHR '','' # join_comma t"

definition not_primitive :: string where
  "not_primitive = ''Cannot convert object to primitive value''"

text \<open>\<^verbatim>\<open>String(v)\<close>. An array joins its elements with commas, \<^verbatim>\<open>null\<close> and
  \<^verbatim>\<open>undefined\<close> elements printing as the empty string.\<close>

fun js_String :: "jsval \<Rightarrow> string + string" where
  "js_String JUndefined = Inr ''undefined''"
| "js_String JNull = Inr ''null''"
| "js_String (JBool b) = Inr (if b then ''true'' else ''false'')"
| "js_String (JNum n) = Inr (num_to_string n)"
| "js_String (JStr s) = Inr s"
| "js_String (JArr xs) =
     (case collect (map (\<lambda>x. if x = JUndefined \<or> x = JNull then Inr [] else js_String x) xs) of
        Inl thrown \<Rightarrow> Inl thrown
      | Inr ss \<Rightarrow> Inr (join_comma ss))"
| "js_String (JObj kvs) =
     (if map_of kvs ''toString'' \<noteq> None then Inl not_primitive else Inr ''[object Object]'')"

subsection \<open>Numeric literals: \<^verbatim>\<open>Number(string)\<close>\<close>

definition digits_val :: "int \<Rightarrow> (char \<Rightarrow> int) \<Rightarrow> string \<Rightarrow> int" where
  "digits_val base dv s = foldl (\<lambda>a c. base * a + dv c) 0 s"

fun parse_exponent :: "string \<Rightarrow> int option" where
  "parse_exponent [] = Some 0"
| "parse_exponent (c # r) =
     (if c = CHR ''e'' \<or> c = CHR ''E'' then
        (let (sg, ds) = (case r of
                           [] \<Rightarrow> (1, r)
                         | x # t \<Rightarrow> if x = CHR ''+'' then (1, t)
                                    else if x = CHR ''-'' then (- 1, t) else (1, r))
         in if ds \<noteq> [] \<and> list_all is_digit ds
            then Some (sg * digits_val 10 digit_val ds) else None)
      else None)"

text \<open>The mathematical value of an unsigned decimal literal, \<open>None\<close> when the string is
  not one.\<close>

definition parse_unsigned_decimal :: "string \<Rightarrow> rat option" where
  "parse_unsigned_decimal s =
     (let ip = takeWhile is_digit s;
          r1 = dropWhile is_digit s;
          (fp, r2) = (case r1 of
                        [] \<Rightarrow> ([], r1)
                      | x # t \<Rightarrow> if x = CHR ''.''
                                 then (takeWhile is_digit t, dropWhile is_digit t)
                                 else ([], r1))
      in if ip = [] \<and> fp = [] then None
         else (case parse_exponent r2 of
                 None \<Rightarrow> None
               | Some e \<Rightarrow>
                   Some ((of_int (digits_val 10 digit_val ip)
                          + of_int (digits_val 10 digit_val fp) * pow10 (- int (length fp)))
                         * pow10 e)))"

definition parse_decimal :: "string \<Rightarrow> jsnum" where
  "parse_decimal s =
     (let (neg, u) = (case s of
                        [] \<Rightarrow> (False, s)
                      | x # t \<Rightarrow> if x = CHR ''+'' then (False, t)
                                 else if x = CHR ''-'' then (True, t) else (False, s))
      in if u = ''Infinity'' then (if neg then NInf else PInf)
         else (case parse_unsigned_decimal u of
                 None \<Rightarrow> NaN
               | Some q \<Rightarrow> round64 (if neg then - q else q)))"

definition hex_val :: "char \<Rightarrow> int option" where
  "hex_val c =
     (let n = int (of_char c :: nat) in
      if 48 \<le> n \<and> n \<le> 57 then Some (n - 48)
      else if 65 \<le> n \<and> n \<le> 70 then Some (n - 55)
      else if 97 \<le> n \<and> n \<le> 102 then Some (n - 87)
      else None)"

definition parse_radix :: "int \<Rightarrow> string \<Rightarrow> jsnum" where
  "parse_radix base ds =
     (if ds \<noteq> [] \<and> list_all (\<lambda>c. case hex_val c of None \<Rightarrow> False | Some v \<Rightarrow> v < base) ds
      then round64 (of_int (digits_val base (\<lambda>c. the (hex_val c)) ds))
      else NaN)"

text \<open>\<^verbatim>\<open>StringToNumber\<close>: white space is trimmed, the empty string is 0, then a
  literal in base 16, 8 or 2 (no sign), or a signed decimal literal, rounded to binary64;
  anything else is NaN.\<close>

definition string_to_number :: "string \<Rightarrow> jsnum" where
  "string_to_number s =
     (let t = trim s in
      if t = [] then Fin 0
      else (case t of
              a # b # ds \<Rightarrow>
                if a = CHR ''0'' \<and> (b = CHR ''x'' \<or> b = CHR ''X'') then parse_radix 16 ds
                else if a = CHR ''0'' \<and> (b = CHR ''o'' \<or> b = CHR ''O'') then parse_radix 8 ds
                else if a = CHR ''0'' \<and> (b = CHR ''b'' \<or> b = CHR ''B'') then parse_radix 2 ds
                else parse_decimal t
            | _ \<Rightarrow> parse_decimal t))"

text \<open>\<^verbatim>\<open>Number(v)\<close>: an array is converted through its string.\<close>

fun js_Number :: "jsval \<Rightarrow> string + jsnum" where
  "js_Number JUndefined = Inr NaN"
| "js_Number JNull = Inr (Fin 0)"
| "js_Number (JBool b) = Inr (if b then Fin 1 else Fin 0)"
| "js_Number (JNum n) = Inr n"
| "js_Number (JStr s) = Inr (string_to_number s)"
| "js_Number (JArr xs) =
     (case js_String (JArr xs) of
        Inl thrown \<Rightarrow> Inl thrown
      | Inr s \<Rightarrow> Inr (string_to_number s))"
| "js_Number (JObj kvs) =
     (if map_of kvs ''toString'' \<noteq> None then Inl not_primitive else Inr NaN)"

text \<open>Truthiness, as \<^verbatim>\<open>||\<close> and \<^verbatim>\<open>!\<close> test it.\<close>

fun truthy :: "jsval \<Rightarrow> bool" where
  "truthy JUndefined = False"
| "truthy JNull = False"
| "truthy (JBool b) = b"
| "truthy (JNum n) = (n \<noteq> NaN \<and> n \<noteq> Fin 0)"
| "truthy (JStr s) = (s \<noteq> [])"
| "truthy (JArr _) = True"
| "truthy (JObj _) = True"

text \<open>\<^verbatim>\<open>a || b\<close> and \<^verbatim>\<open>a ?? b\<close>.\<close>

definition js_or :: "jsval \<Rightarrow> jsval \<Rightarrow> jsval" where
  "js_or a b = (if truthy a then a else b)"

definition js_nullish :: "jsval \<Rightarrow> jsval \<Rightarrow> jsval" where
  "js_nullish a b = (if a = JUndefined \<or> a = JNull then b else a)"

text \<open>
  Property access with a fixed key, none of which names a property of a primitive, of an
  array or of \<^verbatim>\<open>Object.prototype\<close>: an object looks the key up, every other value
  but \<^verbatim>\<open>null\<close> gives \<^verbatim>\<open>undefined\<close>. \<^verbatim>\<open>null[key]\<close> throws a TypeError;
  \<^verbatim>\<open>null?.key\<close> is \<^verbatim>\<open>undefined\<close>.
\<close>

fun get_opt :: "jsval \<Rightarrow> string \<Rightarrow> jsval" where
  "get_opt (JObj kvs) k = (case map_of kvs k of None \<Rightarrow> JUndefined | Some v \<Rightarrow> v)"
| "get_opt _ _ = JUndefined"

fun get_prop :: "jsval \<Rightarrow> string \<Rightarrow> string + jsval" where
  "get_prop JNull k =
     Inl (''Cannot read properties of null (reading '' @ [CHR 0x27] @ k @ [CHR 0x27] @ '')'')"
| "get_prop v k = Inr (get_opt v k)"

text \<open>
  What \<^verbatim>\<open>JSON.stringify\<close> leaves of a value: NaN and the infinities print as
  \<^verbatim>\<open>null\<close>, as \<^verbatim>\<open>undefined\<close> does inside an array, and a key whose value is
  \<^verbatim>\<open>undefined\<close> is left out.
\<close>

fun json_value :: "jsval \<Rightarrow> jsval" where
  "json_value (JNum n) = (case n of Fin q \<Rightarrow> JNum (Fin q) | _ \<Rightarrow> JNull)"
| "json_value (JArr xs) =
     JArr (map (\<lambda>x. case json_value x of JUndefined \<Rightarrow> JNull | y \<Rightarrow> y) xs)"
| "json_value (JObj kvs) =
     JObj (filter (\<lambda>kv. snd kv \<noteq> JUndefined) (map (map_prod id json_value) kvs))"
| "json_value v = v"

text \<open>A number field of a stored record is what \<^verbatim>\<open>JSON.stringify\<close> prints of the
  number: the number when it is finite, \<^verbatim>\<open>null\<close> (\<open>None\<close>) otherwise. Read back in
  arithmetic and comparisons, \<^verbatim>\<open>null\<close> is 0.\<close>

fun json_number :: "jsnum \<Rightarrow> rat option" where
  "json_number (Fin q) = Some q"
| "json_number _ = None"

fun to_number :: "rat option \<Rightarrow> jsnum" where
  "to_number None = Fin 0"
| "to_number (Some q) = Fin q"

text \<open>\<^verbatim>\<open>ToIntegerOrInfinity\<close> and \<^verbatim>\<open>Array.prototype.slice(start)\<close>.\<close>

datatype extint = MinusInf | Finite int | PlusInf

fun to_integer_or_infinity :: "jsnum \<Rightarrow> extint" where
  "to_integer_or_infinity NaN = Finite 0"
| "to_integer_or_infinity PInf = PlusInf"
| "to_integer_or_infinity NInf = MinusInf"
| "to_integer_or_infinity (Fin q) = Finite (if 0 \<le> q then \<lfloor>q\<rfloor> else \<lceil>q\<rceil>)"

fun slice :: "jsnum \<Rightarrow> 'a list \<Rightarrow> 'a list" where
  "slice start xs =
     (let len = int (length xs) in
      case to_integer_or_infinity start of
        MinusInf \<Rightarrow> xs
      | PlusInf \<Rightarrow> []
      | Finite i \<Rightarrow> if i < 0 then drop (nat (max (len + i) 0)) xs else drop (nat (min i len)) xs)"

text \<open>\<^verbatim>\<open>findIndex\<close>: the first index whose element satisfies the predicate;
  \<open>None\<close> is the \<open>-1\<close> of JavaScript.\<close>

fun findIndex :: "('a \<Rightarrow> bool) \<Rightarrow> 'a list \<Rightarrow> nat option" where
  "findIndex P [] = None"
| "findIndex P (x # xs) =
     (if P x then Some 0 else (case findIndex P xs of None \<Rightarrow> None | Some i \<Rightarrow> Some (Suc i)))"

section \<open>Data model\<close>

text \<open>
  The records are those the server writes. A record is built in memory and leaves the
  handler only through \<^verbatim>\<open>JSON.stringify\<close>, into the data file and into the response;
  its fields hold what \<^verbatim>\<open>JSON.stringify\<close> prints, which is what the next request
  reads back: a price or a quantity is a finite number or \<^verbatim>\<open>null\<close>.
\<close>

record product =
  id' :: string
  productId :: string
  productName :: string
  category :: string
  price :: "rat option"
  quantity :: "rat option"
  manufacturingDate :: string
  supplier :: string
  updatedAt :: string

record notification =
  nid :: string
  channel :: string
  recipient :: string
  subject :: jsval
  message :: string
  delivered :: bool
  mode :: string
  resultMessage :: string
  createdAt :: string

record event =
  etype :: string
  erevision :: int
  etimestamp :: string
  edetails :: "(string \<times> jsval) list"

datatype frame = EventLine string | DataLine event

text \<open>
  The state of the process and of its two data files. \<open>products\<close> and
  \<open>notifications\<close> are the arrays stored in \<^verbatim>\<open>products.json\<close> and
  \<^verbatim>\<open>notifications.json\<close>; \<open>written\<close> records every \<^verbatim>\<open>client.write\<close> of the
  event stream, and \<open>posted\<close> every request sent to a webhook.
\<close>

record server =
  products :: "product list"
  notifications :: "notification list"
  revision :: int
  streamClients :: "nat list"
  written :: "(nat \<times> frame) list"
  posted :: "(string \<times> jsval) list"

datatype fetch_outcome = Responded bool int | Rejected string

text \<open>
  What a request reads from outside the program: the result of \<^verbatim>\<open>randomUUID()\<close>,
  of \<^verbatim>\<open>new Date().toISOString()\<close> when the record is built, of \<^verbatim>\<open>Date.now()\<close>
  and \<^verbatim>\<open>new Date().toISOString()\<close> in \<^verbatim>\<open>emitStreamEvent\<close>, and the answer of
  the network to \<^verbatim>\<open>fetch\<close> (whether the response is \<^verbatim>\<open>ok\<close> and its status, or
  the message of the error thrown).
\<close>

record env =
  randomUUID :: string
  isoNow :: string
  dateNow :: int
  isoEmit :: string
  fetch :: "string \<Rightarrow> jsval \<Rightarrow> fetch_outcome"

record config =
  EMAIL_WEBHOOK_URL :: "string option"
  SMS_WEBHOOK_URL :: "string option"

record alert_item =
  item_id :: string
  item_productId :: string
  item_productName :: string
  item_quantity :: "rat option"
  item_supplier :: string

record alerts =
  lowStockCount :: nat
  outOfStockCount :: nat
  lowStockItems :: "alert_item list"

datatype body =
    ErrorBody string
  | ProductBody product
  | NotificationBody notification
  | NotificationsBody "notification list"
  | AlertsBody alerts
  | NoBody

type_synonym response = "nat \<times> body"

section \<open>The functions of \<^verbatim>\<open>server.js\<close>\<close>

definition readProducts :: "server \<Rightarrow> product list" where
  "readProducts st = products st"

definition writeProducts :: "product list \<Rightarrow> server \<Rightarrow> server" where
  "writeProducts ps st = st\<lparr>products := ps\<rparr>"

definition readNotifications :: "server \<Rightarrow> notification list" where
  "readNotifications st = notifications st"

definition writeNotifications :: "notification list \<Rightarrow> server \<Rightarrow> server" where
  "writeNotifications ns st = st\<lparr>notifications := ns\<rparr>"

text \<open>The \<^verbatim>\<open>catch\<close> of the request listener: whatever a handler throws is answered
  500 with its message. Every conversion that can throw comes before the first write, so
  the state is the one the request found.\<close>

definition internal_error :: "string \<Rightarrow> server \<Rightarrow> response \<times> server" where
  "internal_error thrown st =
     ((500, ErrorBody (if thrown = [] then ''Internal server error'' else thrown)), st)"

definition required :: "string list" where
  "required = [''productId'', ''productName'', ''category'', ''price'', ''quantity'',
               ''manufacturingDate'', ''supplier'']"

text \<open>The loop of \<^verbatim>\<open>validateProductInput\<close>. \<open>Inl\<close> is a TypeError thrown on the
  way; \<open>Inr None\<close> is the \<^verbatim>\<open>null\<close> of a valid payload, \<open>Inr (Some m)\<close> the
  message returned.\<close>

fun check_required :: "jsval \<Rightarrow> string list \<Rightarrow> string + string option" where
  "check_required payload [] = Inr None"
| "check_required payload (key # keys) =
     and_then (get_prop payload key) (\<lambda>v.
       if v = JUndefined \<or> v = JNull then Inr (Some (key @ '' is required''))
       else and_then (js_String v) (\<lambda>s.
         if trim s = [] then Inr (Some (key @ '' is required''))
         else check_required payload keys))"

definition validateProductInput :: "jsval \<Rightarrow> string + string option" where
  "validateProductInput payload =
     and_then (check_required payload required) (\<lambda>missing.
       case missing of
         Some m \<Rightarrow> Inr (Some m)
       | None \<Rightarrow>
           and_then (js_Number (get_opt payload ''price'')) (\<lambda>cost.
             if js_le cost (Fin 0) then Inr (Some ''price must be greater than zero'')
             else and_then (js_Number (get_opt payload ''quantity'')) (\<lambda>qty.
               if \<not> number_isInteger qty \<or> js_lt qty (Fin 0)
               then Inr (Some ''quantity must be a non-negative integer'')
               else Inr None)))"

definition alert_projection :: "product \<Rightarrow> alert_item" where
  "alert_projection item =
     \<lparr>item_id = id' item, item_productId = productId item,
      item_productName = productName item, item_quantity = quantity item,
      item_supplier = supplier item\<rparr>"

definition computeAlerts :: "product list \<Rightarrow> alerts" where
  "computeAlerts ps =
     (let lowStock = filter (\<lambda>p. js_lt (to_number (quantity p)) (Fin 5)) ps;
          outOfStock = filter (\<lambda>p. quantity p = Some 0) ps
      in \<lparr>lowStockCount = length lowStock,
          outOfStockCount = length outOfStock,
          lowStockItems = map alert_projection lowStock\<rparr>)"

definition emitStreamEvent :: "env \<Rightarrow> string \<Rightarrow> (string \<times> jsval) list \<Rightarrow> server \<Rightarrow> server" where
  "emitStreamEvent e type details st =
     (let st1 = st\<lparr>revision := dateNow e\<rparr>;
          payload = \<lparr>etype = type, erevision = revision st1, etimestamp = isoEmit e,
                     edetails = details\<rparr>
      in st1\<lparr>written := written st1 @
                 concat (map (\<lambda>client. [(client, EventLine type), (client, DataLine payload)])
                             (streamClients st1))\<rparr>)"

record dispatch =
  d_delivered :: bool
  d_mode :: string
  d_message :: string

text \<open>\<^verbatim>\<open>dispatchNotification\<close>: the outcome and the webhook requests it made.
  \<^verbatim>\<open>!hook\<close> holds of an unset variable and of the empty string.\<close>

definition dispatchNotification ::
  "config \<Rightarrow> env \<Rightarrow> string \<Rightarrow> jsval \<Rightarrow> dispatch \<times> (string \<times> jsval) list" where
  "dispatchNotification cfg e chan payload =
     (let hook = (if chan = ''email'' then EMAIL_WEBHOOK_URL cfg else SMS_WEBHOOK_URL cfg) in
      case hook of
        None \<Rightarrow> (\<lparr>d_delivered = False, d_mode = ''log-only'',
                  d_message = ''Webhook not configured''\<rparr>, [])
      | Some url \<Rightarrow>
          if url = [] then (\<lparr>d_delivered = False, d_mode = ''log-only'',
                              d_message = ''Webhook not configured''\<rparr>, [])
          else (case fetch e url payload of
                  Responded ok status \<Rightarrow>
                    if \<not> ok then (\<lparr>d_delivered = False, d_mode = ''webhook'',
                                     d_message = ''Webhook failed: '' @ int_to_string status\<rparr>,
                                   [(url, payload)])
                    else (\<lparr>d_delivered = True, d_mode = ''webhook'',
                           d_message = ''Delivered to webhook''\<rparr>, [(url, payload)])
                | Rejected msg \<Rightarrow>
                    (\<lparr>d_delivered = False, d_mode = ''webhook'', d_message = msg\<rparr>,
                     [(url, payload)])))"

section \<open>The request handlers\<close>

text \<open>
  A request carries the result of \<^verbatim>\<open>safeParseJson\<close> on its body: \<open>None\<close> when
  \<^verbatim>\<open>JSON.parse\<close> throws, \<open>Some v\<close> otherwise (an empty body parses as the empty
  object). A handler returns the response and the new state.
\<close>

text \<open>The fields that the create and the update handler take from the payload, in the
  order of the source, put into a record that has the other fields.\<close>

definition payload_fields :: "jsval \<Rightarrow> string \<Rightarrow> product \<Rightarrow> string + product" where
  "payload_fields payload now base =
     and_then (js_String (get_opt payload ''productId'')) (\<lambda>pid.
     and_then (js_String (get_opt payload ''productName'')) (\<lambda>name.
     and_then (js_String (get_opt payload ''category'')) (\<lambda>cat.
     and_then (js_Number (get_opt payload ''price'')) (\<lambda>cost.
     and_then (js_Number (get_opt payload ''quantity'')) (\<lambda>qty.
     and_then (js_String (get_opt payload ''manufacturingDate'')) (\<lambda>made.
     and_then (js_String (get_opt payload ''supplier'')) (\<lambda>sup.
       Inr (base\<lparr>productId := pid, productName := name, category := cat,
                 price := json_number cost, quantity := json_number qty,
                 manufacturingDate := made, supplier := sup, updatedAt := now\<rparr>))))))))"

definition post_product :: "env \<Rightarrow> jsval option \<Rightarrow> server \<Rightarrow> response \<times> server" where
  "post_product e parsed st =
     (case parsed of
        None \<Rightarrow> ((400, ErrorBody ''Invalid JSON payload''), st)
      | Some payload \<Rightarrow>
          (case validateProductInput payload of
             Inl thrown \<Rightarrow> internal_error thrown st
           | Inr (Some validationError) \<Rightarrow> ((400, ErrorBody validationError), st)
           | Inr None \<Rightarrow>
               (let ps = readProducts st in
                if find (\<lambda>p. JStr (productId p) = get_opt payload ''productId'') ps \<noteq> None
                then ((409, ErrorBody ''productId already exists''), st)
                else
                  (case payload_fields payload (isoNow e)
                          \<lparr>id' = randomUUID e, productId = [], productName = [], category = [],
                           price = None, quantity = None, manufacturingDate = [],
                           supplier = [], updatedAt = []\<rparr> of
                     Inl thrown \<Rightarrow> internal_error thrown st
                   | Inr newItem \<Rightarrow>
                       (let st1 = writeProducts (ps @ [newItem]) st;
                            st2 = emitStreamEvent e ''product_created''
                                    [(''productId'', JStr (id' newItem))] st1
                        in ((201, ProductBody newItem), st2))))))"

definition restock_delta :: "jsval \<Rightarrow> string + jsnum" where
  "restock_delta payload = js_Number (js_nullish (get_opt payload ''delta'') (JNum (Fin 1)))"

definition patch_restock :: "env \<Rightarrow> string \<Rightarrow> jsval option \<Rightarrow> server \<Rightarrow> response \<times> server" where
  "patch_restock e ident parsed st =
     (case parsed of
        None \<Rightarrow> ((400, ErrorBody ''Invalid JSON payload''), st)
      | Some payload \<Rightarrow>
          (case restock_delta payload of
             Inl thrown \<Rightarrow> internal_error thrown st
           | Inr delta \<Rightarrow>
               if \<not> number_isInteger delta \<or> js_le delta (Fin 0)
               then ((400, ErrorBody ''delta must be a positive integer''), st)
               else
                 (let ps = readProducts st in
                  case findIndex (\<lambda>p. id' p = ident) ps of
                    None \<Rightarrow> ((404, ErrorBody ''product not found''), st)
                  | Some index \<Rightarrow>
                      (let ps1 = ps[index := (ps ! index)
                                   \<lparr>quantity := json_number
                                      (js_add (to_number (quantity (ps ! index))) delta)\<rparr>];
                           ps2 = ps1[index := (ps1 ! index)\<lparr>updatedAt := isoNow e\<rparr>];
                           st1 = writeProducts ps2 st;
                           st2 = emitStreamEvent e ''product_restocked''
                                   [(''productId'', JStr ident), (''delta'', JNum delta)] st1
                       in ((200, ProductBody (ps2 ! index)), st2)))))"

definition delete_product :: "env \<Rightarrow> string \<Rightarrow> server \<Rightarrow> response \<times> server" where
  "delete_product e ident st =
     (if ident = [] then ((400, ErrorBody ''id is required''), st)
      else
        (let ps = readProducts st;
             nextProducts = filter (\<lambda>p. id' p \<noteq> ident) ps
         in if length nextProducts = length ps
            then ((404, ErrorBody ''product not found''), st)
            else
              (let st1 = writeProducts nextProducts st;
                   st2 = emitStreamEvent e ''product_deleted'' [(''productId'', JStr ident)] st1
               in ((204, NoBody), st2))))"

definition put_product :: "env \<Rightarrow> string \<Rightarrow> jsval option \<Rightarrow> server \<Rightarrow> response \<times> server" where
  "put_product e ident parsed st =
     (if ident = [] then ((400, ErrorBody ''id is required''), st)
      else
        (case parsed of
           None \<Rightarrow> ((400, ErrorBody ''Invalid JSON payload''), st)
         | Some payload \<Rightarrow>
             (case validateProductInput payload of
                Inl thrown \<Rightarrow> internal_error thrown st
              | Inr (Some validationError) \<Rightarrow> ((400, ErrorBody validationError), st)
              | Inr None \<Rightarrow>
                  (let ps = readProducts st in
                   case findIndex (\<lambda>p. id' p = ident) ps of
                     None \<Rightarrow> ((404, ErrorBody ''product not found''), st)
                   | Some index \<Rightarrow>
                       if find (\<lambda>p. id' p \<noteq> ident
                                     \<and> JStr (productId p) = get_opt payload ''productId'') ps \<noteq> None
                       then ((409, ErrorBody ''productId already exists''), st)
                       else
                         (case payload_fields payload (isoNow e) (ps ! index) of
                            Inl thrown \<Rightarrow> internal_error thrown st
                          | Inr updated \<Rightarrow>
                              (let ps1 = ps[index := updated];
                                   st1 = writeProducts ps1 st;
                                   st2 = emitStreamEvent e ''product_updated''
                                           [(''productId'', JStr ident)] st1
                               in ((200, ProductBody (ps1 ! index)), st2)))))))"

text \<open>\<^verbatim>\<open>GET /api/notifications\<close>; the argument is \<^verbatim>\<open>url.searchParams.get("limit")\<close>,
  \<open>None\<close> for \<^verbatim>\<open>null\<close>.\<close>

definition notification_limit :: "string option \<Rightarrow> string + jsnum" where
  "notification_limit param =
     js_Number (js_or (case param of None \<Rightarrow> JNull | Some s \<Rightarrow> JStr s) (JNum (Fin 20)))"

definition get_notifications :: "string option \<Rightarrow> server \<Rightarrow> response \<times> server" where
  "get_notifications param st =
     (case notification_limit param of
        Inl thrown \<Rightarrow> internal_error thrown st
      | Inr limit \<Rightarrow>
          (let ns = rev (slice (js_neg (math_max (Fin 1) (math_min limit (Fin 100))))
                               (readNotifications st))
           in ((200, NotificationsBody ns), st)))"

definition get_alerts :: "server \<Rightarrow> response \<times> server" where
  "get_alerts st = ((200, AlertsBody (computeAlerts (readProducts st))), st)"

definition post_notify :: "config \<Rightarrow> env \<Rightarrow> jsval option \<Rightarrow> server \<Rightarrow> response \<times> server" where
  "post_notify cfg e parsed st =
     (case parsed of
        None \<Rightarrow> ((400, ErrorBody ''Invalid JSON payload''), st)
      | Some payload \<Rightarrow>
          (case js_String (js_or (get_opt payload ''channel'') (JStr [])) of
             Inl thrown \<Rightarrow> internal_error thrown st
           | Inr c \<Rightarrow>
          (case js_String (js_or (get_opt payload ''recipient'') (JStr [])) of
             Inl thrown \<Rightarrow> internal_error thrown st
           | Inr r \<Rightarrow>
          (case js_String (js_or (get_opt payload ''message'') (JStr [])) of
             Inl thrown \<Rightarrow> internal_error thrown st
           | Inr m \<Rightarrow>
          (let chan = toLowerCase c; rcpt = trim r; msg = trim m
           in if chan \<notin> set [''email'', ''sms'']
              then ((400, ErrorBody ''channel must be email or sms''), st)
              else if rcpt = [] \<or> msg = []
              then ((400, ErrorBody ''recipient and message are required''), st)
              else
                (let subj = json_value (js_or (get_opt payload ''subject'')
                                              (JStr ''Inventory Alert''));
                     (d, reqs) = dispatchNotification cfg e chan
                                   (JObj [(''subject'', subj), (''recipient'', JStr rcpt),
                                          (''message'', JStr msg)]);
                     item = \<lparr>nid = randomUUID e, channel = chan, recipient = rcpt,
                             subject = subj, message = msg, delivered = d_delivered d,
                             mode = d_mode d, resultMessage = d_message d,
                             createdAt = isoNow e\<rparr>;
                     st0 = st\<lparr>posted := posted st @ reqs\<rparr>;
                     history = readNotifications st0 @ [item];
                     st1 = writeNotifications history st0;
                     st2 = emitStreamEvent e ''notification_sent''
                             [(''notificationId'', JStr (nid item)), (''channel'', JStr chan)] st1
                 in ((201, NotificationBody item), st2)))))))"

text \<open>The routes of the server that read or change the state.\<close>

datatype request =
    GetAlerts
  | GetNotifications "string option"
  | PostNotify "jsval option"
  | PostProduct "jsval option"
  | PatchRestock string "jsval option"
  | DeleteProduct string
  | PutProduct string "jsval option"

fun handle :: "config \<Rightarrow> env \<Rightarrow> request \<Rightarrow> server \<Rightarrow> response \<times> server" where
  "handle cfg e GetAlerts st = get_alerts st"
| "handle cfg e (GetNotifications param) st = get_notifications param st"
| "handle cfg e (PostNotify parsed) st = post_notify cfg e parsed st"
| "handle cfg e (PostProduct parsed) st = post_product e parsed st"
| "handle cfg e (PatchRestock ident parsed) st = patch_restock e ident parsed st"
| "handle cfg e (DeleteProduct ident) st = delete_product e ident st"
| "handle cfg e (PutProduct ident parsed) st = put_product e ident parsed st"

text \<open>The requests that change a data file, and the responses that report success.\<close>

fun is_mutation :: "request \<Rightarrow> bool" where
  "is_mutation GetAlerts = False"
| "is_mutation (GetNotifications _) = False"
| "is_mutation _ = True"

definition succeeded :: "response \<Rightarrow> bool" where
  "succeeded resp = (fst resp < 300)"

section \<open>Requests in flight\<close>

text \<open>
  Node runs one handler at a time. A handler gives up control only at an
  \<^verbatim>\<open>await\<close>: the product handlers have one, \<^verbatim>\<open>await getRequestBody(req)\<close>, before
  they touch the state, and everything after it (\<^verbatim>\<open>readFileSync\<close>, the change,
  \<^verbatim>\<open>writeFileSync\<close>, the broadcast, the response) is synchronous. The notify handler
  awaits the webhook as well, again before it reads the history. So requests in flight
  interleave only in the order in which their bodies complete: a step of the event loop
  picks any pending request and runs its handler to the response, on whatever the clock
  and the network say at that moment.
\<close>

datatype job = Pending request | Answered response

fun answered :: "job \<Rightarrow> bool" where
  "answered (Pending _) = False"
| "answered (Answered _) = True"

inductive event_loop :: "config \<Rightarrow> job list \<times> server \<Rightarrow> job list \<times> server \<Rightarrow> bool"
  for cfg :: config where
  run: "i < length jobs \<Longrightarrow> jobs ! i = Pending r \<Longrightarrow> handle cfg e r st = (resp, st')
        \<Longrightarrow> event_loop cfg (jobs, st) (jobs[i := Answered resp], st')"

section \<open>Sample data\<close>

definition sample_product :: "string \<Rightarrow> string \<Rightarrow> rat \<Rightarrow> product" where
  "sample_product ident key q =
     \<lparr>id' = ident, productId = key, productName = ''Widget'', category = ''Tools'',
      price = Some 10, quantity = Some q, manufacturingDate = ''2024-01-01'',
      supplier = ''Acme'', updatedAt = ''2024-01-01T00:00:00.000Z''\<rparr>"

definition sample_payload :: "jsval \<Rightarrow> jsval \<Rightarrow> jsval" where
  "sample_payload key cost =
     JObj [(''productId'', key), (''productName'', JStr ''Widget''),
           (''category'', JStr ''Tools''), (''price'', cost),
           (''quantity'', JNum (Fin 3)), (''manufacturingDate'', JStr ''2024-01-01''),
           (''supplier'', JStr ''Acme'')]"

definition sample_notification :: "nat \<Rightarrow> notification" where
  "sample_notification i =
     \<lparr>nid = int_to_string (int i), channel = ''sms'', recipient = ''+100'',
      subject = JStr ''Inventory Alert'', message = ''low'', delivered = False,
      mode = ''log-only'', resultMessage = ''Webhook not configured'',
      createdAt = ''2024-01-01T00:00:00.000Z''\<rparr>"

definition sample_server :: "product list \<Rightarrow> notification list \<Rightarrow> server" where
  "sample_server ps ns =
     \<lparr>products = ps, notifications = ns, revision = 1700000000000, streamClients = [1],
      written = [], posted = []\<rparr>"

definition sample_env :: "int \<Rightarrow> env" where
  "sample_env t =
     \<lparr>randomUUID = ''uuid-1'', isoNow = ''2024-06-01T00:00:00.000Z'', dateNow = t,
      isoEmit = ''2024-06-01T00:00:00.001Z'', fetch = (\<lambda>url payload. Responded True 200)\<rparr>"

definition no_hooks :: config where
  "no_hooks = \<lparr>EMAIL_WEBHOOK_URL = None, SMS_WEBHOOK_URL = None\<rparr>"

definition sample_restock :: request where
  "sample_restock = PatchRestock ''a'' (Some (JObj [(''delta'', JNum (Fin 1))]))"

text \<open>A store whose one product has the quantity \<open>2\<^sup>5\<^sup>3\<close>, which the create handler
  accepts: it is an integer and not negative.\<close>

definition big_store :: server where
  "big_store = sample_server [sample_product ''a'' ''K'' 9007199254740992] []"

text \<open>What a successful mutation does last: one call of \<open>emitStreamEvent\<close>, on a
  state with the same subscribers and the same stream as before the request.\<close>

definition emitted :: "env \<Rightarrow> server \<Rightarrow> server \<Rightarrow> bool" where
  "emitted e st st' = (\<exists>t d mid. st' = emitStreamEvent e t d mid \<and> written mid = written st
                           \<and> streamClients mid = streamClients st)"

section \<open>Binary64 on integers\<close>

text \<open>An integer of magnitude at most \<open>2\<^sup>5\<^sup>3\<close> is a binary64 number: rounding leaves it
  as it is, so the sum of two numbers is exact when it is such an integer.\<close>

lemma ipow_eq: "ipow b e = b ^ nat e"
proof (induction b e rule: ipow.induct)
  case (1 b e)
  show ?case
  proof (cases "e \<le> 0")
    case True
    then show ?thesis by (subst ipow.simps) simp
  next
    case False
    then have ih: "ipow b (e div 2) = b ^ nat (e div 2)"
      using 1 by simp
    show ?thesis
    proof (cases "even e")
      case True
      then have "nat e = nat (e div 2) + nat (e div 2)"
        using False by (auto elim!: evenE)
      then have "b ^ nat e = b ^ nat (e div 2) * b ^ nat (e div 2)"
        by (simp add: power_add)
      with False True ih show ?thesis
        by (subst ipow.simps) (simp add: Let_def)
    next
      case odd: False
      then have "nat e = Suc (nat (e div 2) + nat (e div 2))"
        using False by (auto elim!: oddE)
      then have "b ^ nat e = b * b ^ nat (e div 2) * b ^ nat (e div 2)"
        by (simp add: power_add)
      with False odd ih show ?thesis
        by (subst ipow.simps) (simp add: Let_def)
    qed
  qed
qed

lemma pow2_nonneg: "0 \<le> e \<Longrightarrow> pow2 e = 2 ^ nat e"
  by (simp add: pow2_def ipow_eq)

lemma pow2_neg: "e < 0 \<Longrightarrow> pow2 e = 1 / 2 ^ nat (- e)"
  by (simp add: pow2_def ipow_eq)

lemma overflow_threshold_eq: "overflow_threshold = 2 ^ 1024"
  by (simp add: overflow_threshold_def)

lemma round_half_even_int: "round_half_even (of_int z) = z"
  by (simp add: round_half_even_def)

lemma floor_log2_int:
  assumes "0 < n"
  shows "floor_log2 (of_int n) = bitlen n - 1" and "1 \<le> bitlen n"
    and "(2::int) ^ nat (bitlen n - 1) \<le> n"
proof -
  from bitlen_bounds[OF assms] show b: "(2::int) ^ nat (bitlen n - 1) \<le> n" by simp
  show l: "1 \<le> bitlen n" using assms by (auto simp: bitlen_alt_def)
  have one: "bitlen 1 = 1" by (simp add: bitlen_alt_def)
  have "(of_int ((2::int) ^ nat (bitlen n - 1)) :: rat) \<le> of_int n"
    using b by (simp only: of_int_le_iff)
  then have "pow2 (bitlen n - 1) \<le> of_int n"
    using l by (simp add: pow2_nonneg)
  then show "floor_log2 (of_int n) = bitlen n - 1"
    by (simp add: floor_log2_def one)
qed

lemma round64_pos_int:
  assumes "0 < n" "n \<le> 2 ^ 53"
  shows "round64_pos (of_int n) = Some (of_int n)"
proof -
  let ?fl = "bitlen n - 1"
  note fl = floor_log2_int[OF assms(1)]
  have "(2::int) ^ nat ?fl \<le> 2 ^ 53" using fl(3) assms(2) by linarith
  then have le53: "nat ?fl \<le> 53" by (rule power_le_imp_le_exp[rotated]) simp
  have ex: "\<exists>z. (of_int n :: rat) / pow2 (?fl - 52) = of_int z"
  proof (cases "?fl \<le> 52")
    case True
    show ?thesis
    proof (cases "?fl = 52")
      case True
      then show ?thesis by (intro exI[of _ n]) (simp add: pow2_nonneg)
    next
      case False
      with True have "?fl - 52 < 0" by simp
      then have "(of_int n :: rat) / pow2 (?fl - 52) = of_int (n * 2 ^ nat (52 - ?fl))"
        by (simp add: pow2_neg)
      then show ?thesis by blast
    qed
  next
    case False
    with le53 fl(2) have f: "?fl = 53" by linarith
    with fl(3) assms(2) have n: "n = 2 ^ 53" by simp
    have p: "pow2 (?fl - 52) = 2"
      using f by (simp add: pow2_nonneg)
    have "(of_int n :: rat) / pow2 (?fl - 52) = of_int (2 ^ 52)"
      unfolding p by (simp add: n)
    then show ?thesis by blast
  qed
  then obtain z where z: "(of_int n :: rat) / pow2 (?fl - 52) = of_int z" by blast
  have pos: "pow2 (?fl - 52) \<noteq> 0"
    by (cases "0 \<le> bitlen n - 1 - 52") (simp_all add: pow2_nonneg pow2_neg)
  from z pos have mult: "of_int z * pow2 (?fl - 52) = (of_int n :: rat)"
    by (simp add: field_simps)
  have "(of_int n :: rat) \<le> of_int (2 ^ 53)" using assms(2) by (simp only: of_int_le_iff)
  then have small: "\<not> overflow_threshold \<le> (of_int n :: rat)"
    by (simp add: overflow_threshold_eq)
  have e: "max (floor_log2 (of_int n)) (- 1022) = ?fl"
    using fl(1,2) by simp
  show ?thesis
    unfolding round64_pos_def Let_def e z round_half_even_int mult
    using small by simp
qed

lemma round64_int:
  assumes "\<bar>n\<bar> \<le> 2 ^ 53"
  shows "round64 (of_int n) = Fin (of_int n)"
proof -
  consider "n = 0" | "0 < n" | "n < 0" by linarith
  then show ?thesis
  proof cases
    case 1
    then show ?thesis by (simp add: round64_def)
  next
    case 2
    with assms have "n \<le> 2 ^ 53" by simp
    from round64_pos_int[OF 2 this] 2 show ?thesis by (simp add: round64_def)
  next
    case 3
    with assms have "0 < - n" "- n \<le> 2 ^ 53" by simp_all
    from round64_pos_int[OF this] 3 show ?thesis by (simp add: round64_def)
  qed
qed

text \<open>Outside that range the sum is rounded, and so is a literal.\<close>

lemma binary64_examples:
  "js_add (Fin 9007199254740992) (Fin 1) = Fin 9007199254740992"
  "js_add (Fin 9007199254740992) (Fin 5) = Fin 9007199254740996"
  "string_to_number ''1.0000000000000001'' = Fin 1"
  "num_to_string (Fin 1000000000000000000000) = ''1e+21''"
  by code_simp+

lemma js_add_int:
  "\<bar>a + b\<bar> \<le> 2 ^ 53 \<Longrightarrow> js_add (Fin (of_int a)) (Fin (of_int b)) = Fin (of_int (a + b))"
  using round64_int[of "a + b"] by simp

section \<open>Facts about the helpers\<close>

lemma findIndex_Some: "findIndex P xs = Some i \<Longrightarrow> i < length xs \<and> P (xs ! i)"
  by (induction xs arbitrary: i) (auto split: if_splits option.splits)

lemma findIndex_update:
  "findIndex P xs = Some i \<Longrightarrow> P y \<Longrightarrow> findIndex P (xs[i := y]) = Some i"
  by (induction xs arbitrary: i) (auto split: if_splits option.splits)

lemma findIndex_None: "(findIndex P xs = None) = (\<forall>x \<in> set xs. \<not> P x)"
  by (induction xs) (auto split: option.splits)

lemma emit_products [simp]: "products (emitStreamEvent e t d st) = products st"
  by (simp add: emitStreamEvent_def Let_def)

lemma emit_notifications [simp]: "notifications (emitStreamEvent e t d st) = notifications st"
  by (simp add: emitStreamEvent_def Let_def)

lemma emit_revision [simp]: "revision (emitStreamEvent e t d st) = dateNow e"
  by (simp add: emitStreamEvent_def Let_def)

lemma emit_posted [simp]: "posted (emitStreamEvent e t d st) = posted st"
  by (simp add: emitStreamEvent_def Let_def)

lemma rat_is_int_of_int [simp]: "rat_is_int (of_int n)"
  by (simp add: rat_is_int_def)

lemma rat_is_int_numeral [simp]: "rat_is_int (numeral n)" "rat_is_int 1" "rat_is_int 0"
  using rat_is_int_of_int[of "numeral n"] rat_is_int_of_int[of 1] rat_is_int_of_int[of 0]
  by simp_all

lemmas sample_defs = sample_product_def sample_server_def sample_env_def sample_payload_def
  sample_notification_def no_hooks_def sample_restock_def big_store_def

section \<open>Restock\<close>

lemma patch_restock_ok:
  assumes "findIndex (\<lambda>p. id' p = ident) (products st) = Some k"
    and "restock_delta payload = Inr d"
    and "number_isInteger d"
    and "\<not> js_le d (Fin 0)"
  shows "patch_restock e ident (Some payload) st =
           ((200, ProductBody ((products st ! k)
                     \<lparr>quantity := json_number (js_add (to_number (quantity (products st ! k))) d),
                      updatedAt := isoNow e\<rparr>)),
            emitStreamEvent e ''product_restocked''
              [(''productId'', JStr ident), (''delta'', JNum d)]
              (st\<lparr>products := (products st)[k := (products st ! k)
                     \<lparr>quantity := json_number (js_add (to_number (quantity (products st ! k))) d),
                      updatedAt := isoNow e\<rparr>]\<rparr>))"
  using assms findIndex_Some[OF assms(1)]
  by (simp add: patch_restock_def Let_def readProducts_def writeProducts_def)




lemma delta_number: "restock_delta (JObj [(''delta'', JNum d)]) = Inr d"
  by (simp add: restock_delta_def js_nullish_def)

lemma restocked_quantity:
  assumes "quantity p = Some (of_int q)" and "\<bar>q + d\<bar> \<le> 2 ^ 53"
  shows "json_number (js_add (to_number (quantity p)) (Fin (of_int d))) = Some (of_int (q + d))"
  using js_add_int[OF assms(2)] by (simp add: assms(1))







section \<open>Concurrent restocks\<close>

lemma filter_update_count:
  "i < length xs \<Longrightarrow> \<not> P (xs ! i) \<Longrightarrow> P y
   \<Longrightarrow> length (filter P (xs[i := y])) = Suc (length (filter P xs))"
  by (induction xs arbitrary: i) (auto split: nat.splits)

lemma pending_update_count:
  assumes "i < length jobs" "jobs ! i = Pending r"
  shows "length (filter (\<lambda>j. \<not> answered j) (jobs[i := Answered resp]))
           < length (filter (\<lambda>j. \<not> answered j) jobs)"
proof -
  have a: "length (filter answered (jobs[i := Answered resp])) = Suc (length (filter answered jobs))"
    using assms by (intro filter_update_count) simp_all
  have "length (filter answered xs) + length (filter (\<lambda>j. \<not> answered j) xs) = length xs" for xs
    by (rule sum_length_filter_compl)
  from this[of jobs] this[of "jobs[i := Answered resp]"] a show ?thesis by simp
qed

lemma event_loop_finishes:
  "\<exists>jobs' st'. (event_loop cfg)\<^sup>*\<^sup>* (jobs, st) (jobs', st') \<and> list_all answered jobs'"
proof (induction "length (filter (\<lambda>j. \<not> answered j) jobs)" arbitrary: jobs st rule: less_induct)
  case less
  show ?case
  proof (cases "list_all answered jobs")
    case True
    then show ?thesis by blast
  next
    case False
    then obtain i where i: "i < length jobs" "\<not> answered (jobs ! i)"
      by (auto simp: list_all_length)
    then obtain r where r: "jobs ! i = Pending r"
      by (cases "jobs ! i") auto
    obtain resp st1 where h: "handle cfg (sample_env 0) r st = (resp, st1)"
      by (cases "handle cfg (sample_env 0) r st") blast
    have step: "event_loop cfg (jobs, st) (jobs[i := Answered resp], st1)"
      using i(1) r h by (rule event_loop.run)
    from less[OF pending_update_count[OF i(1) r], of resp st1]
    obtain jobs' st' where
      "(event_loop cfg)\<^sup>*\<^sup>* (jobs[i := Answered resp], st1) (jobs', st')" "list_all answered jobs'"
      by blast
    with step show ?thesis
      by (meson converse_rtranclp_into_rtranclp)
  qed
qed

lemma restock_step:
  assumes step: "event_loop cfg (jobs, st) (jobs', st')"
    and jobs: "\<forall>j \<in> set jobs. j = Pending (PatchRestock ident (Some payload))
                 \<or> (\<exists>b. j = Answered (200, b))"
    and delta: "restock_delta payload = Inr (Fin (of_int 1))"
    and idx: "findIndex (\<lambda>p. id' p = ident) (products st) = Some k"
    and qty: "quantity (products st ! k) = Some (of_int (q + int (length (filter answered jobs))))"
    and lo: "- (2 ^ 53) \<le> q" and hi: "q + int (length jobs) \<le> 2 ^ 53"
  shows "length jobs' = length jobs
       \<and> (\<forall>j \<in> set jobs'. j = Pending (PatchRestock ident (Some payload))
                 \<or> (\<exists>b. j = Answered (200, b)))
       \<and> findIndex (\<lambda>p. id' p = ident) (products st') = Some k
       \<and> quantity (products st' ! k)
           = Some (of_int (q + int (length (filter answered jobs'))))"
proof -
  from step obtain i r e resp where s: "i < length jobs" "jobs ! i = Pending r"
    "handle cfg e r st = (resp, st')" "jobs' = jobs[i := Answered resp]"
    by (auto elim: event_loop.cases)
  from s(1,2) jobs have r: "r = PatchRestock ident (Some payload)"
    by (metis job.distinct(1) job.inject(1) nth_mem)
  have cnt: "length (filter answered jobs') = Suc (length (filter answered jobs))"
    unfolding s(4) using s(1,2) by (intro filter_update_count) simp_all
  have "length (filter answered jobs') \<le> length jobs'"
    by (rule length_filter_le)
  with cnt have "Suc (length (filter answered jobs)) \<le> length jobs'"
    by linarith
  then have "Suc (length (filter answered jobs)) \<le> length jobs"
    by (simp add: s(4))
  with lo hi have bound: "\<bar>q + int (length (filter answered jobs)) + 1\<bar> \<le> 2 ^ 53"
    by linarith
  have v: "number_isInteger (Fin (of_int 1))" "\<not> js_le (Fin (of_int 1)) (Fin 0)"
    by simp_all
  note ok = patch_restock_ok[OF idx delta v, of e]
  note sum = restocked_quantity[OF qty bound]
  from findIndex_Some[OF idx] have k: "k < length (products st)" "id' (products st ! k) = ident"
    by simp_all
  have resp: "fst resp = 200" and st': "products st' =
      (products st)[k := (products st ! k)
         \<lparr>quantity := Some (of_int (q + int (length (filter answered jobs)) + 1)),
          updatedAt := isoNow e\<rparr>]"
    using s(3) ok sum by (auto simp: r)
  have len: "length jobs' = length jobs" by (simp add: s(4))
  have all: "\<forall>j \<in> set jobs'. j = Pending (PatchRestock ident (Some payload))
                 \<or> (\<exists>b. j = Answered (200, b))"
  proof
    fix j assume "j \<in> set jobs'"
    then have "j = Answered resp \<or> j \<in> set jobs"
      using set_update_subset_insert[of jobs i "Answered resp"] by (auto simp: s(4))
    then show "j = Pending (PatchRestock ident (Some payload)) \<or> (\<exists>b. j = Answered (200, b))"
      using jobs resp by (cases resp) auto
  qed
  have idx': "findIndex (\<lambda>p. id' p = ident) (products st') = Some k"
    unfolding st' by (rule findIndex_update[OF idx]) (simp add: k)
  have qty': "quantity (products st' ! k)
                = Some (of_int (q + int (length (filter answered jobs'))))"
    by (simp add: st' k cnt algebra_simps)
  from len all idx' qty' show ?thesis by blast
qed

lemma restock_run:
  assumes run: "(event_loop cfg)\<^sup>*\<^sup>* (jobs0, st0) (jobs, st)"
    and jobs: "\<forall>j \<in> set jobs0. j = Pending (PatchRestock ident (Some payload))
                 \<or> (\<exists>b. j = Answered (200, b))"
    and delta: "restock_delta payload = Inr (Fin (of_int 1))"
    and idx: "findIndex (\<lambda>p. id' p = ident) (products st0) = Some k"
    and qty: "quantity (products st0 ! k)
                = Some (of_int (q + int (length (filter answered jobs0))))"
    and lo: "- (2 ^ 53) \<le> q" and hi: "q + int (length jobs0) \<le> 2 ^ 53"
  shows "length jobs = length jobs0
       \<and> (\<forall>j \<in> set jobs. j = Pending (PatchRestock ident (Some payload))
                 \<or> (\<exists>b. j = Answered (200, b)))
       \<and> findIndex (\<lambda>p. id' p = ident) (products st) = Some k
       \<and> quantity (products st ! k) = Some (of_int (q + int (length (filter answered jobs))))"
  using run
proof (induction rule: rtranclp_induct2)
  case refl
  show ?case using jobs idx qty by simp
next
  case (step jobs1 st1 jobs2 st2)
  from step(3) have len: "length jobs1 = length jobs0" by simp
  from restock_step[OF step(2) _ delta _ _ lo, of ident k] step(3) hi len show ?case by simp
qed

text \<open>
  Claim C2, amended. The product exists, its quantity \<open>q\<close> is an integer not below
  \<open>-2\<^sup>5\<^sup>3\<close>, and \<open>q + n\<close> is at most \<open>2\<^sup>5\<^sup>3\<close>. \<open>n\<close> restock requests by 1 for the
  product are in flight at once. Whatever the order in which the event loop runs them: the
  loop can always answer them all; in every state it reaches, every request answered so
  far got 200 and the quantity is the initial one plus the number of requests answered; so
  when all are answered the quantity is exactly \<open>q + n\<close>.
\<close>

theorem concurrent_restocks_all_counted:
  assumes idx: "findIndex (\<lambda>p. id' p = ident) (products st) = Some k"
    and qty: "quantity (products st ! k) = Some (of_int q)"
    and lo: "- (2 ^ 53) \<le> q" and hi: "q + int n \<le> 2 ^ 53"
    and R: "R = PatchRestock ident (Some (JObj [(''delta'', JNum (Fin 1))]))"
  shows "(\<exists>jobs' st'. (event_loop cfg)\<^sup>*\<^sup>* (replicate n (Pending R), st) (jobs', st')
            \<and> list_all answered jobs')
       \<and> (\<forall>jobs' st'. (event_loop cfg)\<^sup>*\<^sup>* (replicate n (Pending R), st) (jobs', st')
            \<longrightarrow> length jobs' = n
              \<and> (\<forall>j \<in> set jobs'. j = Pending R \<or> (\<exists>b. j = Answered (200, b)))
              \<and> findIndex (\<lambda>p. id' p = ident) (products st') = Some k
              \<and> quantity (products st' ! k)
                  = Some (of_int (q + int (length (filter answered jobs'))))
              \<and> (list_all answered jobs'
                    \<longrightarrow> quantity (products st' ! k) = Some (of_int (q + int n))))"
proof (intro conjI allI impI)
  show "\<exists>jobs' st'. (event_loop cfg)\<^sup>*\<^sup>* (replicate n (Pending R), st) (jobs', st')
            \<and> list_all answered jobs'"
    by (rule event_loop_finishes)
next
  fix jobs' st'
  assume run: "(event_loop cfg)\<^sup>*\<^sup>* (replicate n (Pending R), st) (jobs', st')"
  have none: "filter answered (replicate n (Pending R)) = []"
    by (induction n) simp_all
  have d: "restock_delta (JObj [(''delta'', JNum (Fin 1))]) = Inr (Fin (of_int 1))"
    by (simp add: delta_number)
  have inv: "length jobs' = length (replicate n (Pending R))
       \<and> (\<forall>j \<in> set jobs'. j = Pending (PatchRestock ident (Some (JObj [(''delta'', JNum (Fin 1))])))
                 \<or> (\<exists>b. j = Answered (200, b)))
       \<and> findIndex (\<lambda>p. id' p = ident) (products st') = Some k
       \<and> quantity (products st' ! k)
           = Some (of_int (q + int (length (filter answered jobs'))))"
    by (rule restock_run[OF run _ d idx _ lo]) (insert hi, simp_all add: R qty none)
  show "length jobs' = n" using inv by simp
  show "\<forall>j \<in> set jobs'. j = Pending R \<or> (\<exists>b. j = Answered (200, b))" using inv R by simp
  show "findIndex (\<lambda>p. id' p = ident) (products st') = Some k" using inv by simp
  show "quantity (products st' ! k) = Some (of_int (q + int (length (filter answered jobs'))))"
    using inv by simp
  assume "list_all answered jobs'"
  then have "filter answered jobs' = jobs'"
    by (simp add: list_all_iff)
  with inv show "quantity (products st' ! k) = Some (of_int (q + int n))" by simp
qed

text \<open>
  The amended C2 for two requests on a product of quantity 3.
\<close>

theorem concurrent_restocks_all_counted_witness:
  "\<exists>jobs' st'. (event_loop no_hooks)\<^sup>*\<^sup>*
       (replicate 2 (Pending (PatchRestock ''a'' (Some (JObj [(''delta'', JNum (Fin 1))])))),
        sample_server [sample_product ''a'' ''K'' 3] []) (jobs', st')
     \<and> list_all answered jobs' \<and> length jobs' = 2 \<and> quantity (products st' ! 0) = Some 5"
proof -
  let ?st = "sample_server [sample_product ''a'' ''K'' 3] []"
  have h1: "findIndex (\<lambda>p. id' p = ''a'') (products ?st) = Some 0"
    by (simp add: sample_defs)
  have h2: "quantity (products ?st ! 0) = Some (of_int 3)"
    by (simp add: sample_defs)
  have h3: "- (2 ^ 53) \<le> (3::int)" "3 + int 2 \<le> 2 ^ 53" by simp_all
  note T = concurrent_restocks_all_counted[OF h1 h2 h3 refl, of no_hooks]
  from T obtain jobs' st' where
    run: "(event_loop no_hooks)\<^sup>*\<^sup>*
       (replicate 2 (Pending (PatchRestock ''a'' (Some (JObj [(''delta'', JNum (Fin 1))])))), ?st)
       (jobs', st')" and fin: "list_all answered jobs'"
    by blast
  from T run fin have "length jobs' = 2 \<and> quantity (products st' ! 0) = Some (of_int (3 + int 2))"
    by blast
  with run fin show ?thesis by auto
qed

text \<open>
  Claim C2 says that the quantity ends at exactly \<open>Q + N\<close> for every \<open>Q\<close>. Two
  restock requests by 1 in flight on a product of quantity \<open>2\<^sup>5\<^sup>3\<close> are both answered 200
  and leave the quantity at \<open>2\<^sup>5\<^sup>3\<close>: each binary64 sum \<open>2\<^sup>5\<^sup>3 + 1\<close> rounds back.
\<close>

theorem concurrent_restocks_counterexample:
  "(event_loop no_hooks)\<^sup>*\<^sup>*
     ([Pending sample_restock, Pending sample_restock], big_store)
     ([Answered (fst (handle no_hooks (sample_env 1) sample_restock big_store)),
       Answered (fst (handle no_hooks (sample_env 2) sample_restock
                        (snd (handle no_hooks (sample_env 1) sample_restock big_store))))],
      snd (handle no_hooks (sample_env 2) sample_restock
             (snd (handle no_hooks (sample_env 1) sample_restock big_store))))
   \<and> fst (fst (handle no_hooks (sample_env 1) sample_restock big_store)) = 200
   \<and> fst (fst (handle no_hooks (sample_env 2) sample_restock
                  (snd (handle no_hooks (sample_env 1) sample_restock big_store)))) = 200
   \<and> map quantity (products big_store) = [Some 9007199254740992]
   \<and> map quantity (products (snd (handle no_hooks (sample_env 2) sample_restock
             (snd (handle no_hooks (sample_env 1) sample_restock big_store)))))
       = [Some 9007199254740992]"
proof -
  let ?h1 = "handle no_hooks (sample_env 1) sample_restock big_store"
  let ?h2 = "handle no_hooks (sample_env 2) sample_restock (snd ?h1)"
  have s1: "event_loop no_hooks ([Pending sample_restock, Pending sample_restock], big_store)
              ([Pending sample_restock, Pending sample_restock][0 := Answered (fst ?h1)], snd ?h1)"
    by (rule event_loop.run[where r = sample_restock and e = "sample_env 1"]) simp_all
  have s2: "event_loop no_hooks ([Answered (fst ?h1), Pending sample_restock], snd ?h1)
              ([Answered (fst ?h1), Pending sample_restock][1 := Answered (fst ?h2)], snd ?h2)"
    by (rule event_loop.run[where r = sample_restock and e = "sample_env 2"]) simp_all
  from s1 s2 have run: "(event_loop no_hooks)\<^sup>*\<^sup>*
     ([Pending sample_restock, Pending sample_restock], big_store)
     ([Answered (fst ?h1), Answered (fst ?h2)], snd ?h2)"
    by simp
  have vals: "fst (fst ?h1) = 200 \<and> fst (fst ?h2) = 200
     \<and> map quantity (products big_store) = [Some 9007199254740992]
     \<and> map quantity (products (snd ?h2)) = [Some 9007199254740992]"
    by code_simp
  from run vals show ?thesis by blast
qed

section \<open>Alerts\<close>

lemma computeAlerts_fields:
  "lowStockCount (computeAlerts ps)
     = length (filter (\<lambda>p. js_lt (to_number (quantity p)) (Fin 5)) ps)"
  "outOfStockCount (computeAlerts ps) = length (filter (\<lambda>p. quantity p = Some 0) ps)"
  "lowStockItems (computeAlerts ps) =
     map alert_projection (filter (\<lambda>p. js_lt (to_number (quantity p)) (Fin 5)) ps)"
  by (simp_all add: computeAlerts_def Let_def)

lemma filter_by_quantity:
  "length (filter (\<lambda>p. P (quantity p)) ps) = length (filter P (map quantity ps))"
  by (induction ps) simp_all

text \<open>
  Claim C8. \<open>computeAlerts\<close> is a function of the snapshot alone. It counts as
  low-stock exactly the records whose quantity is below 5 and as out-of-stock exactly the
  records whose quantity is 0, and lists the projection (id, business key, name, quantity,
  supplier) of the low-stock records, in the order of the snapshot. On the quantities
  0, 2, 4, 5, 10 the counts are 3 and 1.
\<close>

theorem computeAlerts_counts:
  "lowStockCount (computeAlerts ps)
     = card {i. i < length ps \<and> js_lt (to_number (quantity (ps ! i))) (Fin 5)}
   \<and> outOfStockCount (computeAlerts ps) = card {i. i < length ps \<and> quantity (ps ! i) = Some 0}
   \<and> lowStockItems (computeAlerts ps) =
       map (\<lambda>p. \<lparr>item_id = id' p, item_productId = productId p,
                  item_productName = productName p, item_quantity = quantity p,
                  item_supplier = supplier p\<rparr>)
           (filter (\<lambda>p. js_lt (to_number (quantity p)) (Fin 5)) ps)
   \<and> (map quantity ps = [Some 0, Some 2, Some 4, Some 5, Some 10]
        \<longrightarrow> lowStockCount (computeAlerts ps) = 3 \<and> outOfStockCount (computeAlerts ps) = 1)"
proof -
  have low: "lowStockCount (computeAlerts ps) =
               card {i. i < length ps \<and> js_lt (to_number (quantity (ps ! i))) (Fin 5)}"
    by (simp add: computeAlerts_fields length_filter_conv_card)
  have out: "outOfStockCount (computeAlerts ps) =
               card {i. i < length ps \<and> quantity (ps ! i) = Some 0}"
    by (simp add: computeAlerts_fields length_filter_conv_card)
  have items: "lowStockItems (computeAlerts ps) =
       map (\<lambda>p. \<lparr>item_id = id' p, item_productId = productId p,
                  item_productName = productName p, item_quantity = quantity p,
                  item_supplier = supplier p\<rparr>)
           (filter (\<lambda>p. js_lt (to_number (quantity p)) (Fin 5)) ps)"
    by (simp add: computeAlerts_fields alert_projection_def)
  have ex: "lowStockCount (computeAlerts ps) = 3 \<and> outOfStockCount (computeAlerts ps) = 1"
    if "map quantity ps = [Some 0, Some 2, Some 4, Some 5, Some 10]"
    using that
      filter_by_quantity[of "\<lambda>q. js_lt (to_number q) (Fin 5)" ps]
      filter_by_quantity[of "\<lambda>q. q = Some 0" ps]
    by (simp add: computeAlerts_fields)
  from low out items ex show ?thesis by blast
qed

text \<open>
  C8 on five sample products with the quantities 0, 2, 4, 5 and 10.
\<close>

theorem computeAlerts_counts_witness:
  "lowStockCount (computeAlerts (map (sample_product ''a'' ''K'') [0, 2, 4, 5, 10])) = 3
   \<and> outOfStockCount (computeAlerts (map (sample_product ''a'' ''K'') [0, 2, 4, 5, 10])) = 1"
proof -
  have h: "map quantity (map (sample_product ''a'' ''K'') [0, 2, 4, 5, 10])
             = [Some 0, Some 2, Some 4, Some 5, Some 10]"
    by (simp add: sample_product_def)
  from computeAlerts_counts[of "map (sample_product ''a'' ''K'') [0, 2, 4, 5, 10]"] h
  show ?thesis by blast
qed

text \<open>
  Claim C9 says that no record of quantity zero is counted or listed as low-stock. On a
  snapshot of one product of quantity 0, that product is the low-stock list and the
  low-stock count is 1.
\<close>

theorem low_stock_lists_zero_counterexample:
  "lowStockItems (computeAlerts [sample_product ''a'' ''K'' 0])
     = [alert_projection (sample_product ''a'' ''K'' 0)]
   \<and> item_quantity (alert_projection (sample_product ''a'' ''K'' 0)) = Some 0
   \<and> lowStockCount (computeAlerts [sample_product ''a'' ''K'' 0]) = 1"
  by (simp add: computeAlerts_fields alert_projection_def sample_product_def)

lemma filter_length_mono:
  "(\<And>x. P x \<Longrightarrow> Q x) \<Longrightarrow> length (filter P xs) \<le> length (filter Q xs)"
  by (induction xs) auto

text \<open>
  Claim C9, amended. Every record listed as low-stock has a quantity below 5. A record of
  quantity zero is below 5 too: every out-of-stock record is also listed as low-stock, and
  the out-of-stock count is at most the low-stock count.
\<close>

theorem low_stock_below_threshold:
  "(\<forall>item \<in> set (lowStockItems (computeAlerts ps)).
       js_lt (to_number (item_quantity item)) (Fin 5))
   \<and> (\<forall>p \<in> set ps. quantity p = Some 0
         \<longrightarrow> alert_projection p \<in> set (lowStockItems (computeAlerts ps)))
   \<and> outOfStockCount (computeAlerts ps) \<le> lowStockCount (computeAlerts ps)"
proof -
  have a: "\<forall>item \<in> set (lowStockItems (computeAlerts ps)).
             js_lt (to_number (item_quantity item)) (Fin 5)"
    by (auto simp: computeAlerts_fields alert_projection_def)
  have b: "\<forall>p \<in> set ps. quantity p = Some 0
         \<longrightarrow> alert_projection p \<in> set (lowStockItems (computeAlerts ps))"
    by (auto simp: computeAlerts_fields)
  have c: "outOfStockCount (computeAlerts ps) \<le> lowStockCount (computeAlerts ps)"
    unfolding computeAlerts_fields by (rule filter_length_mono) simp
  from a b c show ?thesis by blast
qed

text \<open>
  The amended C9 on a snapshot of two products, of quantity 0 and 7.
\<close>

theorem low_stock_below_threshold_witness:
  "alert_projection (sample_product ''a'' ''K'' 0)
     \<in> set (lowStockItems (computeAlerts [sample_product ''a'' ''K'' 0, sample_product ''b'' ''L'' 7]))
   \<and> js_lt (to_number (item_quantity (alert_projection (sample_product ''a'' ''K'' 0)))) (Fin 5)"
proof -
  let ?ps = "[sample_product ''a'' ''K'' 0, sample_product ''b'' ''L'' 7]"
  have m: "sample_product ''a'' ''K'' 0 \<in> set ?ps" by simp
  have q: "quantity (sample_product ''a'' ''K'' 0) = Some 0" by (simp add: sample_product_def)
  from low_stock_below_threshold[of ?ps] m q
  have i: "alert_projection (sample_product ''a'' ''K'' 0) \<in> set (lowStockItems (computeAlerts ?ps))"
    by blast
  with low_stock_below_threshold[of ?ps] show ?thesis by blast
qed

section \<open>Notifications\<close>

lemma nan_limit: "notification_limit (Some ''abc'') = Inr NaN"
  by code_simp

lemma clamp_cases:
  assumes "l \<noteq> NaN"
  shows "\<exists>c. 1 \<le> c \<and> c \<le> 100 \<and> math_max (Fin 1) (math_min l (Fin 100)) = Fin c"
proof (cases l)
  case NaN
  with assms show ?thesis by simp
next
  case PInf
  then show ?thesis by (intro exI[of _ 100]) simp
next
  case NInf
  then show ?thesis by (intro exI[of _ 1]) simp
next
  case (Fin q)
  show ?thesis
  proof (cases "100 < q")
    case True
    with Fin show ?thesis by (intro exI[of _ 100]) simp
  next
    case False
    show ?thesis
    proof (cases "1 < q")
      case True
      with Fin \<open>\<not> 100 < q\<close> show ?thesis by (intro exI[of _ q]) simp
    next
      case False
      with Fin \<open>\<not> 100 < q\<close> show ?thesis by (intro exI[of _ 1]) simp
    qed
  qed
qed

lemma slice_last:
  assumes "1 \<le> c" "c \<le> 100"
  shows "rev (slice (js_neg (Fin c)) xs) = take (nat \<lfloor>c\<rfloor>) (rev xs)"
    and "1 \<le> nat \<lfloor>c\<rfloor>" and "nat \<lfloor>c\<rfloor> \<le> 100"
proof -
  have f: "1 \<le> \<lfloor>c\<rfloor>" "\<lfloor>c\<rfloor> \<le> 100"
    using assms by (simp_all add: le_floor_iff floor_le_iff)
  from f show "1 \<le> nat \<lfloor>c\<rfloor>" "nat \<lfloor>c\<rfloor> \<le> 100" by linarith+
  have neg: "\<not> 0 \<le> - c" "\<lceil>- c\<rceil> = - \<lfloor>c\<rfloor>" using assms by (simp_all add: ceiling_minus)
  have "slice (js_neg (Fin c)) xs = drop (nat (max (int (length xs) - \<lfloor>c\<rfloor>) 0)) xs"
    using f by (simp add: neg Let_def)
  also have "nat (max (int (length xs) - \<lfloor>c\<rfloor>) 0) = length xs - nat \<lfloor>c\<rfloor>"
    using f by linarith
  finally have "slice (js_neg (Fin c)) xs = drop (length xs - nat \<lfloor>c\<rfloor>) xs" .
  then show "rev (slice (js_neg (Fin c)) xs) = take (nat \<lfloor>c\<rfloor>) (rev xs)"
    by (cases "nat \<lfloor>c\<rfloor> \<le> length xs") (simp_all add: rev_drop del: slice.simps)
qed

text \<open>For every limit that \<^verbatim>\<open>Number\<close> makes a number, the clamp works: the listing is
  the \<open>n\<close> most recent records, most recent first, for some \<open>n\<close> from 1 to 100.\<close>

lemma get_notifications_clamped:
  assumes "notification_limit param = Inr l" "l \<noteq> NaN"
  shows "\<exists>n. 1 \<le> n \<and> n \<le> 100 \<and>
           get_notifications param st =
             ((200, NotificationsBody (take n (rev (notifications st)))), st)"
proof -
  from clamp_cases[OF assms(2)] obtain c where c: "1 \<le> c" "c \<le> 100"
    "math_max (Fin 1) (math_min l (Fin 100)) = Fin c"
    by blast
  from slice_last(1)[OF c(1,2), of "notifications st"] slice_last(2,3)[OF c(1,2)] show ?thesis
    by (intro exI[of _ "nat \<lfloor>c\<rfloor>"])
       (simp add: get_notifications_def Let_def assms(1) c(3) readNotifications_def
             del: slice.simps)
qed

text \<open>
  Claim C6 says that the listing never returns more than 100 records, whatever the limit.
  With the limit \<^verbatim>\<open>abc\<close>, \<^verbatim>\<open>Number\<close> gives NaN, \<^verbatim>\<open>Math.min\<close> and
  \<^verbatim>\<open>Math.max\<close> keep it, and \<^verbatim>\<open>slice(NaN)\<close> is \<^verbatim>\<open>slice(0)\<close>: the server
  returns the whole history, most recent first, also when it holds 101 records.
\<close>

theorem notifications_non_numeric_limit:
  "get_notifications (Some ''abc'') st = ((200, NotificationsBody (rev (notifications st))), st)
   \<and> length (notifications (sample_server [] (map sample_notification [0..<101]))) = 101"
  by (simp add: get_notifications_def nan_limit readNotifications_def sample_server_def)





section \<open>Business keys\<close>

lemma and_then_Inr_iff:
  "(and_then m f = Inr v) = (\<exists>x. m = Inr x \<and> f x = Inr v)"
  by (cases m) (simp_all add: and_then_def)

lemma check_required_converts:
  "check_required payload keys = Inr None \<Longrightarrow> key \<in> set keys
   \<Longrightarrow> \<exists>s. js_String (get_opt payload key) = Inr s"
proof (induction keys)
  case Nil
  then show ?case by simp
next
  case (Cons k keys)
  from Cons.prems(1) obtain v s where v: "get_prop payload k = Inr v"
    "js_String v = Inr s" "check_required payload keys = Inr None"
    by (auto simp: and_then_Inr_iff split: if_splits)
  from v(1) have "v = get_opt payload k" by (cases payload) auto
  with v Cons show ?case by auto
qed

lemma payload_fields_valid:
  assumes "validateProductInput payload = Inr None"
    and "get_opt payload ''productId'' = JStr key"
  shows "\<exists>p. payload_fields payload now base = Inr p \<and> id' p = id' base
           \<and> productId p = key \<and> updatedAt p = now"
proof -
  from assms(1) obtain cost qty where c: "check_required payload required = Inr None"
    "js_Number (get_opt payload ''price'') = Inr cost"
    "js_Number (get_opt payload ''quantity'') = Inr qty"
    by (auto simp: validateProductInput_def and_then_Inr_iff split: option.splits if_splits)
  have "\<exists>s. js_String (get_opt payload k) = Inr s" if "k \<in> set required" for k
    using check_required_converts[OF c(1) that] .
  then obtain name cat made sup where s:
    "js_String (get_opt payload ''productName'') = Inr name"
    "js_String (get_opt payload ''category'') = Inr cat"
    "js_String (get_opt payload ''manufacturingDate'') = Inr made"
    "js_String (get_opt payload ''supplier'') = Inr sup"
    unfolding required_def by (meson list.set_intros)
  show ?thesis
    by (simp add: payload_fields_def and_then_def assms(2) c(2,3) s)
qed


text \<open>
  Claim C3 says that a create whose business key already exists among the live records
  is rejected. The handler compares the stored key, a string, with the raw value of the
  payload by \<^verbatim>\<open>===\<close>, and stores \<^verbatim>\<open>String(payload.productId)\<close>. With the
  number 5 as \<^verbatim>\<open>productId\<close> and a live record of key \<^verbatim>\<open>"5"\<close>, the comparison
  fails, the answer is 201 and the store holds two records of key \<^verbatim>\<open>"5"\<close>.
\<close>

theorem create_numeric_key_duplicates:
  "fst (fst (post_product (sample_env 5) (Some (sample_payload (JNum (Fin 5)) (JNum (Fin 10))))
               (sample_server [sample_product ''a'' ''5'' 3] []))) = 201
   \<and> map productId (products (snd (post_product (sample_env 5)
               (Some (sample_payload (JNum (Fin 5)) (JNum (Fin 10))))
               (sample_server [sample_product ''a'' ''5'' 3] [])))) = [''5'', ''5'']"
  by code_simp



lemma validate_price:
  "js_Number (get_opt payload ''price'') = Inr cost \<Longrightarrow> js_le cost (Fin 0)
   \<Longrightarrow> validateProductInput payload \<noteq> Inr None"
  by (auto simp: validateProductInput_def and_then_Inr_iff split: option.splits)

lemma validate_quantity:
  "js_Number (get_opt payload ''quantity'') = Inr qty
   \<Longrightarrow> \<not> number_isInteger qty \<or> js_lt qty (Fin 0)
   \<Longrightarrow> validateProductInput payload \<noteq> Inr None"
  by (auto simp: validateProductInput_def and_then_Inr_iff split: option.splits if_splits)

lemma check_required_missing:
  assumes "key \<in> set keys"
    and "get_opt payload key = JUndefined \<or> get_opt payload key = JNull
           \<or> (\<exists>s. js_String (get_opt payload key) = Inr s \<and> trim s = [])"
  shows "check_required payload keys \<noteq> Inr None"
  using assms
proof (induction keys)
  case Nil
  then show ?case by simp
next
  case (Cons k keys)
  show ?case
  proof
    assume ok: "check_required payload (k # keys) = Inr None"
    then obtain v s where v: "get_prop payload k = Inr v" "v \<noteq> JUndefined" "v \<noteq> JNull"
      "js_String v = Inr s" "trim s \<noteq> []" "check_required payload keys = Inr None"
      by (auto simp: and_then_Inr_iff split: if_splits)
    from v(1) have g: "v = get_opt payload k" by (cases payload) auto
    show False
    proof (cases "key = k")
      case True
      with Cons.prems(2) v g show False by auto
    next
      case False
      with Cons v(6) show False by auto
    qed
  qed
qed

lemma validate_required:
  "key \<in> set required
   \<Longrightarrow> get_opt payload key = JUndefined \<or> get_opt payload key = JNull
         \<or> (\<exists>s. js_String (get_opt payload key) = Inr s \<and> trim s = [])
   \<Longrightarrow> validateProductInput payload \<noteq> Inr None"
  using check_required_missing[of key required payload]
  by (auto simp: validateProductInput_def and_then_Inr_iff split: option.splits)

lemma post_product_created:
  assumes "validateProductInput payload = Inr None"
    and "get_opt payload ''productId'' = JStr key"
    and "\<forall>p \<in> set (products st). productId p \<noteq> key"
  shows "\<exists>item. fst (post_product e (Some payload) st) = (201, ProductBody item)
           \<and> products (snd (post_product e (Some payload) st)) = products st @ [item]
           \<and> id' item = randomUUID e \<and> productId item = key \<and> updatedAt item = isoNow e"
proof -
  have nf: "find (\<lambda>p. JStr (productId p) = get_opt payload ''productId'') (products st) = None"
    using assms(3) by (auto simp: find_None_iff assms(2))
  from payload_fields_valid[OF assms(1,2)] obtain item where
    "payload_fields payload (isoNow e)
        \<lparr>id' = randomUUID e, productId = [], productName = [], category = [],
         price = None, quantity = None, manufacturingDate = [],
         supplier = [], updatedAt = []\<rparr> = Inr item"
    "id' item = randomUUID e" "productId item = key" "updatedAt item = isoNow e"
    by fastforce
  with nf show ?thesis
    by (simp add: post_product_def assms(1) readProducts_def writeProducts_def Let_def)
qed

text \<open>
The update handler compares in the same way: renaming record \<^verbatim>\<open>b\<close> to the
  number 5 while record \<^verbatim>\<open>a\<close> has the key \<^verbatim>\<open>"5"\<close> is answered 200.
\<close>

lemma update_numeric_key_duplicates:
  "fst (fst (put_product (sample_env 5) ''b'' (Some (sample_payload (JNum (Fin 5)) (JNum (Fin 10))))
               (sample_server [sample_product ''a'' ''5'' 3, sample_product ''b'' ''6'' 3] []))) = 200
   \<and> map productId (products (snd (put_product (sample_env 5) ''b''
               (Some (sample_payload (JNum (Fin 5)) (JNum (Fin 10))))
               (sample_server [sample_product ''a'' ''5'' 3, sample_product ''b'' ''6'' 3] []))))
       = [''5'', ''5'']
   \<and> map id' (products (snd (put_product (sample_env 5) ''b''
               (Some (sample_payload (JNum (Fin 5)) (JNum (Fin 10))))
               (sample_server [sample_product ''a'' ''5'' 3, sample_product ''b'' ''6'' 3] []))))
       = [''a'', ''b'']"
  by code_simp




section \<open>Revisions\<close>

lemma emittedI:
  "written mid = written st \<Longrightarrow> streamClients mid = streamClients st
   \<Longrightarrow> emitted e st (emitStreamEvent e t d mid)"
  unfolding emitted_def by blast

lemma post_product_emits:
  "post_product e parsed st = (resp, st') \<Longrightarrow> succeeded resp \<Longrightarrow> emitted e st st'"
  by (auto simp: post_product_def Let_def succeeded_def writeProducts_def internal_error_def
           split: option.splits sum.splits if_splits intro!: emittedI)

lemma patch_restock_emits:
  "patch_restock e ident parsed st = (resp, st') \<Longrightarrow> succeeded resp \<Longrightarrow> emitted e st st'"
  by (auto simp: patch_restock_def Let_def succeeded_def writeProducts_def internal_error_def
           split: option.splits sum.splits if_splits intro!: emittedI)

lemma delete_product_emits:
  "delete_product e ident st = (resp, st') \<Longrightarrow> succeeded resp \<Longrightarrow> emitted e st st'"
  by (auto simp: delete_product_def Let_def succeeded_def writeProducts_def
           split: option.splits sum.splits if_splits intro!: emittedI)

lemma put_product_emits:
  "put_product e ident parsed st = (resp, st') \<Longrightarrow> succeeded resp \<Longrightarrow> emitted e st st'"
  by (auto simp: put_product_def Let_def succeeded_def writeProducts_def internal_error_def
           split: option.splits sum.splits if_splits intro!: emittedI)

lemma post_notify_emits:
  "post_notify cfg e parsed st = (resp, st') \<Longrightarrow> succeeded resp \<Longrightarrow> emitted e st st'"
  by (auto simp: post_notify_def Let_def succeeded_def writeNotifications_def internal_error_def
           split: option.splits sum.splits if_splits prod.splits intro!: emittedI)

lemma handle_emits:
  "handle cfg e r st = (resp, st') \<Longrightarrow> is_mutation r \<Longrightarrow> succeeded resp \<Longrightarrow> emitted e st st'"
  by (cases r) (auto dest: post_product_emits patch_restock_emits delete_product_emits
                           put_product_emits post_notify_emits)

lemma emit_written:
  "written (emitStreamEvent e t d st) =
     written st @ concat (map (\<lambda>c. [(c, EventLine t),
        (c, DataLine \<lparr>etype = t, erevision = dateNow e, etimestamp = isoEmit e, edetails = d\<rparr>)])
        (streamClients st))"
  by (simp add: emitStreamEvent_def Let_def)

lemma emit_streamClients [simp]: "streamClients (emitStreamEvent e t d st) = streamClients st"
  by (simp add: emitStreamEvent_def Let_def)

lemma emitted_facts:
  assumes "emitted e st st'"
  shows "revision st' = dateNow e"
    and "\<exists>ev. erevision ev = dateNow e \<and>
            written st' = written st @
              concat (map (\<lambda>c. [(c, EventLine (etype ev)), (c, DataLine ev)]) (streamClients st))"
proof -
  from assms obtain t d mid where m: "st' = emitStreamEvent e t d mid"
    "written mid = written st" "streamClients mid = streamClients st"
    unfolding emitted_def by blast
  show "revision st' = dateNow e" by (simp add: m)
  let ?ev = "\<lparr>etype = t, erevision = dateNow e, etimestamp = isoEmit e, edetails = d\<rparr>"
  have "erevision ?ev = dateNow e \<and> written st' = written st @
              concat (map (\<lambda>c. [(c, EventLine (etype ?ev)), (c, DataLine ?ev)]) (streamClients st))"
    by (simp add: m emit_written)
  then show "\<exists>ev. erevision ev = dateNow e \<and>
            written st' = written st @
              concat (map (\<lambda>c. [(c, EventLine (etype ev)), (c, DataLine ev)]) (streamClients st))"
    by blast
qed

text \<open>
  Claim C1, amended. The revision issued with the event of a successful mutation is the
  reading of \<^verbatim>\<open>Date.now()\<close> at the broadcast, and every frame written to a subscriber
  carries it. So, of two successive successful mutations, the second has the strictly
  greater revision exactly when the clock reads strictly later at its broadcast.
\<close>

theorem revision_is_clock_reading:
  assumes "handle cfg e1 r1 st0 = (resp1, st1)" "is_mutation r1" "succeeded resp1"
    and "handle cfg e2 r2 st1 = (resp2, st2)" "is_mutation r2" "succeeded resp2"
  shows "revision st1 = dateNow e1 \<and> revision st2 = dateNow e2
       \<and> (revision st1 < revision st2 \<longleftrightarrow> dateNow e1 < dateNow e2)
       \<and> (\<exists>ev. erevision ev = revision st2 \<and>
            written st2 = written st1 @
              concat (map (\<lambda>c. [(c, EventLine (etype ev)), (c, DataLine ev)]) (streamClients st1)))"
proof -
  have a: "emitted e1 st0 st1" using assms(1-3) by (rule handle_emits)
  have b: "emitted e2 st1 st2" using assms(4-6) by (rule handle_emits)
  from emitted_facts[OF a] emitted_facts[OF b] show ?thesis by simp
qed

text \<open>
  Claim C1 says that the revision of a successful mutation is strictly greater than every
  revision issued before. Two restocks that both succeed within the same millisecond get
  the same revision.
\<close>

theorem same_millisecond_counterexample:
  "succeeded (fst (handle no_hooks (sample_env 1700000000001) (PatchRestock ''a'' (Some (JObj [])))
                    (sample_server [sample_product ''a'' ''K'' 3] [])))
   \<and> succeeded (fst (handle no_hooks (sample_env 1700000000001) (PatchRestock ''a'' (Some (JObj [])))
        (snd (handle no_hooks (sample_env 1700000000001) (PatchRestock ''a'' (Some (JObj [])))
                    (sample_server [sample_product ''a'' ''K'' 3] [])))))
   \<and> \<not> revision (snd (handle no_hooks (sample_env 1700000000001) (PatchRestock ''a'' (Some (JObj [])))
                    (sample_server [sample_product ''a'' ''K'' 3] [])))
       < revision (snd (handle no_hooks (sample_env 1700000000001) (PatchRestock ''a'' (Some (JObj [])))
        (snd (handle no_hooks (sample_env 1700000000001) (PatchRestock ''a'' (Some (JObj [])))
                    (sample_server [sample_product ''a'' ''K'' 3] [])))))"
  by code_simp

text \<open>
  The amended C1 for a restock followed, one millisecond later, by a delete.
\<close>

theorem revision_is_clock_reading_witness:
  "revision (snd (handle no_hooks (sample_env 1700000000002) (DeleteProduct ''a'')
       (snd (handle no_hooks (sample_env 1700000000001) (PatchRestock ''a'' (Some (JObj [])))
                    (sample_server [sample_product ''a'' ''K'' 3] []))))) = 1700000000002
   \<and> revision (snd (handle no_hooks (sample_env 1700000000001) (PatchRestock ''a'' (Some (JObj [])))
                    (sample_server [sample_product ''a'' ''K'' 3] [])))
       < revision (snd (handle no_hooks (sample_env 1700000000002) (DeleteProduct ''a'')
       (snd (handle no_hooks (sample_env 1700000000001) (PatchRestock ''a'' (Some (JObj [])))
                    (sample_server [sample_product ''a'' ''K'' 3] [])))))"
proof -
  let ?s0 = "sample_server [sample_product ''a'' ''K'' 3] []"
  let ?h1 = "handle no_hooks (sample_env 1700000000001) (PatchRestock ''a'' (Some (JObj []))) ?s0"
  let ?h2 = "handle no_hooks (sample_env 1700000000002) (DeleteProduct ''a'') (snd ?h1)"
  have 1: "?h1 = (fst ?h1, snd ?h1)" by simp
  have 2: "is_mutation (PatchRestock ''a'' (Some (JObj [])))" by simp
  have 3: "succeeded (fst ?h1)" by code_simp
  have 4: "?h2 = (fst ?h2, snd ?h2)" by simp
  have 5: "is_mutation (DeleteProduct ''a'')" by simp
  have 6: "succeeded (fst ?h2)" by code_simp
  have 7: "dateNow (sample_env 1700000000001) < dateNow (sample_env 1700000000002)"
    "dateNow (sample_env 1700000000002) = 1700000000002"
    by (simp_all add: sample_env_def)
  from revision_is_clock_reading[OF 1 2 3 4 5 6] 7 show ?thesis by simp
qed

end
